theory Spec2Isabelle
  imports Main "HOL-Library.AList" "HOL-Library.Sublist"
begin

section \<open>Strings and lexical paths\<close>

text \<open>
  The plugin subsystem (\<^verbatim>\<open>internal/plugins\<close>: extractor.go, compiler.go, loader.go,
  manager.go) works on Go strings and on the lexical path functions of
  \<^verbatim>\<open>path/filepath\<close> for Unix (the loader refuses every other platform but
  linux, darwin and freebsd). Strings are byte lists; the separator is \<open>/\<close>.
\<close>

type_synonym path = string

text \<open>\<^verbatim>\<open>strings.HasSuffix\<close>, \<^verbatim>\<open>strings.HasPrefix\<close>, \<^verbatim>\<open>strings.TrimSuffix\<close>.\<close>

definition HasSuffix :: "string \<Rightarrow> string \<Rightarrow> bool" where
  "HasSuffix s suf = suffix suf s"

definition HasPrefix :: "string \<Rightarrow> string \<Rightarrow> bool" where
  "HasPrefix s pre = prefix pre s"

definition TrimSuffix :: "string \<Rightarrow> string \<Rightarrow> string" where
  "TrimSuffix s suf = (if HasSuffix s suf then take (length s - length suf) s else s)"

text \<open>\<^verbatim>\<open>strings.Contains\<close>: some position of \<open>s\<close> starts with \<open>sub\<close>.\<close>

fun Contains :: "string \<Rightarrow> string \<Rightarrow> bool" where
  "Contains [] sub = (sub = [])"
| "Contains (c # cs) sub = (prefix sub (c # cs) \<or> Contains cs sub)"

text \<open>
  \<^verbatim>\<open>strings.ToLower\<close>. On a string of ASCII bytes it lowers the letters \<open>A\<close> to
  \<open>Z\<close> byte by byte. On any other string it maps every rune by the Unicode tables
  (which may turn a rune of several bytes into an ASCII letter); the tables are not
  part of the repository, so that mapping is the parameter \<open>unicode\<close>.
\<close>

definition lower_char :: "char \<Rightarrow> char" where
  "lower_char c =
     (let n = (of_char c :: nat) in if 65 \<le> n \<and> n \<le> 90 then char_of (n + 32) else c)"

definition is_ascii :: "string \<Rightarrow> bool" where
  "is_ascii s = list_all (\<lambda>c. (of_char c :: nat) < 128) s"

definition ToLower :: "(string \<Rightarrow> string) \<Rightarrow> string \<Rightarrow> string" where
  "ToLower unicode s = (if is_ascii s then map lower_char s else unicode s)"

text \<open>\<^verbatim>\<open>strings.Split(s, "/")\<close> and \<^verbatim>\<open>strings.Join(elems, "/")\<close>.\<close>

fun split_on :: "char \<Rightarrow> string \<Rightarrow> string list" where
  "split_on c [] = [[]]"
| "split_on c (x # xs) =
     (if x = c then [] # split_on c xs
      else (case split_on c xs of [] \<Rightarrow> [[x]] | w # ws \<Rightarrow> (x # w) # ws))"

fun join_sep :: "string list \<Rightarrow> string" where
  "join_sep [] = []"
| "join_sep [e] = e"
| "join_sep (e # e' # es) = e @ CHR ''/'' # join_sep (e' # es)"

definition rooted :: "path \<Rightarrow> bool" where
  "rooted p = (case p of [] \<Rightarrow> False | c # _ \<Rightarrow> c = CHR ''/'')"

text \<open>
  \<^verbatim>\<open>filepath.Clean\<close>: empty and \<open>.\<close> elements are dropped, an inner \<open>..\<close> removes
  the element before it, a \<open>..\<close> at the start of a rooted path is dropped and at the
  start of a relative path it is kept. \<open>clean_elems\<close> holds the elements written so
  far in reverse (the buffer of the Go loop, whose \<^verbatim>\<open>dotdot\<close> mark is the run of
  \<open>..\<close> at its bottom).
\<close>

fun clean_elems :: "bool \<Rightarrow> string list \<Rightarrow> string list \<Rightarrow> string list" where
  "clean_elems r out [] = rev out"
| "clean_elems r out (e # es) =
     (if e = [] \<or> e = ''.'' then clean_elems r out es
      else if e = ''..'' then
        (case out of
           [] \<Rightarrow> if r then clean_elems r [] es else clean_elems r [''..''] es
         | x # xs \<Rightarrow> if x = ''..'' then clean_elems r (''..'' # out) es
                     else clean_elems r xs es)
      else clean_elems r (e # out) es)"

definition path_elems :: "path \<Rightarrow> string list" where
  "path_elems p = clean_elems (rooted p) [] (split_on CHR ''/'' p)"

definition Clean :: "path \<Rightarrow> path" where
  "Clean p =
     (if p = [] then ''.''
      else if rooted p then CHR ''/'' # join_sep (path_elems p)
      else if path_elems p = [] then ''.''
      else join_sep (path_elems p))"

text \<open>
  \<^verbatim>\<open>filepath.Join\<close>: leading empty elements are skipped, the rest is joined with the
  separator and cleaned; all elements empty gives the empty string.
\<close>

definition Join :: "string list \<Rightarrow> path" where
  "Join elems =
     (case dropWhile (\<lambda>e. e = []) elems of [] \<Rightarrow> [] | es \<Rightarrow> Clean (join_sep es))"

text \<open>\<^verbatim>\<open>filepath.Dir\<close>: the path up to its last separator, cleaned.\<close>

definition Dir_of :: "path \<Rightarrow> path" where
  "Dir_of p = Clean (rev (dropWhile (\<lambda>c. c \<noteq> CHR ''/'') (rev p)))"

text \<open>\<^verbatim>\<open>filepath.Base\<close>: the last element, trailing separators removed first.\<close>

definition Base :: "path \<Rightarrow> string" where
  "Base p =
     (if p = [] then ''.''
      else let q = dropWhile (\<lambda>c. c = CHR ''/'') (rev p);
               b = rev (takeWhile (\<lambda>c. c \<noteq> CHR ''/'') q)
           in if b = [] then ''/'' else b)"

text \<open>
  Where a path lives in the file tree: its cleaned elements, below the entry \<open>/\<close> of
  the tree when the path is rooted and below the working directory otherwise. The
  model is lexical: a leading \<open>..\<close> of a relative path is an entry like any other.
\<close>

definition fskey :: "path \<Rightarrow> string list" where
  "fskey p = (if rooted p then [''/''] else []) @ path_elems p"

text \<open>
  \<open>inside d p\<close>: the path \<open>p\<close> is \<open>d\<close> followed by ordinary names only, so it
  names \<open>d\<close> itself or something below it.
\<close>

definition inside :: "path \<Rightarrow> path \<Rightarrow> bool" where
  "inside d p =
     (rooted p = rooted d \<and> prefix (path_elems d) (path_elems p) \<and>
      ''..'' \<notin> set (drop (length (path_elems d)) (path_elems p)))"


section \<open>The world outside the process\<close>

subsection \<open>Files\<close>

text \<open>
  The file tree: a file has a size and a modification time, a directory a modification
  time and its entries by name. \<open>FileInfo\<close> is what \<^verbatim>\<open>os.Stat\<close> and
  \<^verbatim>\<open>filepath.Walk\<close> report.
\<close>

datatype fnode = File nat nat | Dir nat "(string \<times> fnode) list"

datatype finfo = FileInfo (IsDir: bool) (Size: nat) (ModTime: nat)

fun lookup :: "fnode \<Rightarrow> string list \<Rightarrow> fnode option" where
  "lookup n [] = Some n"
| "lookup (File sz t) (c # cs) = None"
| "lookup (Dir t es) (c # cs) = (case map_of es c of None \<Rightarrow> None | Some n \<Rightarrow> lookup n cs)"

text \<open>Whether the key passes through a regular file (the system call fails with \<^verbatim>\<open>ENOTDIR\<close>).\<close>

fun through_file :: "fnode \<Rightarrow> string list \<Rightarrow> bool" where
  "through_file n [] = False"
| "through_file (File sz t) (c # cs) = True"
| "through_file (Dir t es) (c # cs) = (case map_of es c of None \<Rightarrow> False | Some n \<Rightarrow> through_file n cs)"

text \<open>Removing the subtree at a key (nothing happens when it is absent).\<close>

fun remove_tree :: "string list \<Rightarrow> fnode \<Rightarrow> fnode" where
  "remove_tree [] n = n"
| "remove_tree (c # cs) (File sz t) = File sz t"
| "remove_tree (c # cs) (Dir t es) =
     (if cs = [] then Dir t (AList.delete c es)
      else (case map_of es c of
              None \<Rightarrow> Dir t es
            | Some n \<Rightarrow> Dir t (AList.update c (remove_tree cs n) es)))"

text \<open>
  Creating a directory and its missing parents at time \<open>t\<close>; it fails when an element
  of the key is a file.
\<close>

fun mkdir_all :: "nat \<Rightarrow> string list \<Rightarrow> fnode \<Rightarrow> fnode option" where
  "mkdir_all t [] (Dir t' es) = Some (Dir t' es)"
| "mkdir_all t [] (File sz t') = None"
| "mkdir_all t (c # cs) (File sz t') = None"
| "mkdir_all t (c # cs) (Dir t' es) =
     (case mkdir_all t cs (case map_of es c of None \<Rightarrow> Dir t [] | Some n \<Rightarrow> n) of
        None \<Rightarrow> None
      | Some n' \<Rightarrow> Some (Dir t' (AList.update c n' es)))"

text \<open>
  Creating or truncating a regular file of size \<open>sz\<close> at time \<open>t\<close>; it fails when the
  parent is not a directory or the key names a directory.
\<close>

fun write_file :: "nat \<Rightarrow> nat \<Rightarrow> string list \<Rightarrow> fnode \<Rightarrow> fnode option" where
  "write_file sz t [] n = None"
| "write_file sz t (c # cs) (File sz' t') = None"
| "write_file sz t (c # cs) (Dir t' es) =
     (if cs = [] then
        (case map_of es c of
           Some (Dir t'' es') \<Rightarrow> None
         | _ \<Rightarrow> Some (Dir t' (AList.update c (File sz t) es)))
      else
        (case map_of es c of
           None \<Rightarrow> None
         | Some n \<Rightarrow>
             (case write_file sz t cs n of
                None \<Rightarrow> None
              | Some n' \<Rightarrow> Some (Dir t' (AList.update c n' es)))))"

subsection \<open>Events, errors, plugins\<close>

text \<open>
  Every call that leaves the process (the file system, the archive reader, the Go
  toolchain, the dynamic loader, a plugin's own methods) and every operation on the
  Manager's lock is recorded, in order, as an event. \<open>ELstat\<close> and \<open>EReadDir\<close> are
  the calls \<^verbatim>\<open>filepath.Walk\<close> makes; they only name what may fail.
\<close>

datatype event =
    EStat path | ERemoveAll path | ERemove path | EMkdirAll path
  | EOpenReader path | EEntryOpen string | EOpenFile path | ECopy path | EWriteFile path
  | EWalk path | ELstat path | EReadDir path | EGlob path
  | EGoModTidy path | EGoBuild path path | EObjdump path
  | EPluginOpen path | ELookup path | ENewPlugin path
  | EInitialize nat | EShutdown nat | ERegisterRoutes string nat
  | ELock | EUnlock | ERLock | ERUnlock

text \<open>
  One constructor for each error the code builds (\<^verbatim>\<open>fmt.Errorf\<close> with \<^verbatim>\<open>%w\<close> wraps
  the inner error). \<open>OsError\<close> is the error of a failed system call. \<open>Panic\<close> is not
  an error value of the program: it stands for a nil dereference, after which the
  goroutine unwinds. A function that gets \<open>Panic\<close> from a call passes it on as it
  is and runs nothing more, no clean-up either; only deferred calls run.
\<close>

datatype error =
    OsError event | Panic
  | InvalidFilePath string | ExtractFileFailed string error
  | CleanDirFailed error | CreateDirFailed error | ZipOpenFailed error
  | MissingMainGo
  | BuildDirFailed error | GoModSetupFailed error | GoModTidyFailed
  | CompilationFailed | OutputNotFound path
  | ObjdumpFailed | NewPluginNotExported
  | PlatformUnsupported string string | PluginFileNotFound path
  | OpenFailed path | MissingNewPlugin path | WrongNewPluginType path | NewPluginNil path
  | PluginDirNotFound path | CompileFailed error
  | ExtractFailed error | InvalidStructure error
  | CompilationValidationFailed error | LoadCompiledFailed error
  | RemoveDirFailed error | ReadDirFailed error
  | LoadSomeFailed "(string \<times> error) list"
  | ValidationError error | InvalidPlugin "string list" | AlreadyInstalled string
  | InstallationFailed error | LoadInstalledFailed error | InitializeFailed string error
  | AlreadyLoaded string | LoadFailed string error
  | NotFound string | UnloadFailed error | UninstallFailed error | RecompileFailed error
  | PluginError nat

text \<open>
  A plugin instance: the object's identity, what \<^verbatim>\<open>GetInfo\<close> reports, and whether
  its \<^verbatim>\<open>Initialize\<close> and \<^verbatim>\<open>Shutdown\<close> succeed. A compiled module either cannot be
  opened, lacks the symbol \<^verbatim>\<open>NewPlugin\<close>, exports it with another type, or has a
  constructor, which returns nil or a new object.
\<close>

datatype plugin =
  Plugin (obj: nat) (info_name: string) (info_version: string) (init_ok: bool) (shutdown_ok: bool)

datatype module = OpenFails | NoNewPlugin | WrongType | ReturnsNil
  | Returns_plugin string string bool bool

datatype zentry = ZEntry (zname: string) (zis_dir: bool) (zsize: nat)

datatype build_outcome = BuildFails | BuildNoOutput | BuildOutput nat

subsection \<open>The environment and the state\<close>

text \<open>
  What the code cannot decide is a parameter: the host (\<^verbatim>\<open>runtime.GOOS\<close>), which
  system calls fail (given the events so far), what an archive holds, what the
  toolchain and the dynamic loader answer, and the Unicode part of
  \<^verbatim>\<open>strings.ToLower\<close>.
\<close>

record env =
  goos :: string
  goarch :: string
  unicode_lower :: "string \<Rightarrow> string"
  faults :: "event list \<Rightarrow> event \<Rightarrow> bool"
  dir_size :: nat
  zip_files :: "path \<Rightarrow> zentry list"
  go_mod_tidy :: "path \<Rightarrow> bool"
  go_build :: "path \<Rightarrow> path \<Rightarrow> build_outcome"
  objdump :: "path \<Rightarrow> string option"
  dlopen :: "path \<Rightarrow> module"

record Extractor =
  e_basePluginDir :: string

record Compiler =
  c_buildDir :: string
  c_goPath :: string

record Loader =
  l_loadedPlugins :: "(string \<times> path) list"
  l_pluginDir :: string
  l_buildDir :: string
  l_extractor :: Extractor
  l_compiler :: Compiler

text \<open>
  The state: the file tree, a clock for modification times, the events so far, the
  next object identity, and the Manager (\<open>m_plugins\<close> is its registry; \<open>m_deps\<close>
  and \<open>m_router\<close> say whether the field is non-nil; \<open>mu_writer\<close> and
  \<open>mu_readers\<close> are the \<^verbatim>\<open>sync.RWMutex\<close>). Fields carry the letter of their receiver
  in the source (\<open>e\<close>, \<open>c\<close>, \<open>l\<close>, \<open>m\<close>). \<open>heap\<close> holds the maps that \<^verbatim>\<open>make\<close> allocates for
  callers.
\<close>

record state =
  fs :: fnode
  clock :: nat
  trace :: "event list"
  next_obj :: nat
  m_plugins :: "(string \<times> plugin) list"
  m_pluginPaths :: "(string \<times> string) list"
  m_loader :: Loader
  m_deps :: bool
  m_router :: bool
  mu_writer :: bool
  mu_readers :: nat
  heap :: "nat \<Rightarrow> (string \<times> plugin) list option"
  next_ref :: nat

definition NewExtractor :: "string \<Rightarrow> Extractor" where
  "NewExtractor d = \<lparr>e_basePluginDir = d\<rparr>"

definition NewCompiler :: "string \<Rightarrow> Compiler" where
  "NewCompiler d = \<lparr>c_buildDir = d, c_goPath = ''go''\<rparr>"

definition NewLoader :: "string \<Rightarrow> Loader" where
  "NewLoader d =
     \<lparr>l_loadedPlugins = [], l_pluginDir = d, l_buildDir = Join [d, ''.build''],
      l_extractor = NewExtractor d, l_compiler = NewCompiler (Join [d, ''.build''])\<rparr>"

text \<open>\<^verbatim>\<open>NewManager\<close>, in a world with the file tree \<open>t\<close>.\<close>

definition NewManager :: "fnode \<Rightarrow> state" where
  "NewManager t =
     \<lparr>fs = t, clock = 0, trace = [], next_obj = 0, m_plugins = [], m_pluginPaths = [],
      m_loader = NewLoader ''./plugins'', m_deps = False, m_router = False,
      mu_writer = False, mu_readers = 0, heap = (\<lambda>a. None), next_ref = 0\<rparr>"

definition SetDependencies :: "state \<Rightarrow> state" where
  "SetDependencies s = s\<lparr>m_deps := True\<rparr>"

definition SetRouter :: "state \<Rightarrow> state" where
  "SetRouter s = s\<lparr>m_router := True\<rparr>"

subsection \<open>System calls\<close>

definition emit :: "event \<Rightarrow> state \<Rightarrow> state" where
  "emit e s = s\<lparr>trace := trace s @ [e]\<rparr>"

definition info_of :: "env \<Rightarrow> fnode \<Rightarrow> finfo" where
  "info_of env n = (case n of File sz t \<Rightarrow> FileInfo False sz t | Dir t es \<Rightarrow> FileInfo True (dir_size env) t)"

datatype stat_result = NotExist | StatError | Info finfo

text \<open>
  \<^verbatim>\<open>os.Stat\<close>. The callers test \<^verbatim>\<open>os.IsNotExist(err)\<close>, so a missing file and any
  other failure are told apart; a path below a regular file is such another failure.
\<close>

definition os_Stat :: "env \<Rightarrow> path \<Rightarrow> state \<Rightarrow> stat_result \<times> state" where
  "os_Stat env p s =
     (if faults env (trace s) (EStat p) \<or> (p \<noteq> [] \<and> through_file (fs s) (fskey p)) then StatError
      else if p = [] then NotExist
      else (case lookup (fs s) (fskey p) of None \<Rightarrow> NotExist | Some n \<Rightarrow> Info (info_of env n)),
      emit (EStat p) s)"

text \<open>\<^verbatim>\<open>os.RemoveAll\<close>: no error when the path is missing or empty.\<close>

definition os_RemoveAll :: "env \<Rightarrow> path \<Rightarrow> state \<Rightarrow> error option \<times> state" where
  "os_RemoveAll env p s =
     (if faults env (trace s) (ERemoveAll p) \<or> (p \<noteq> [] \<and> fskey p = [])
      then (Some (OsError (ERemoveAll p)), emit (ERemoveAll p) s)
      else if p = [] then (None, emit (ERemoveAll p) s)
      else (None, emit (ERemoveAll p) (s\<lparr>fs := remove_tree (fskey p) (fs s)\<rparr>)))"

text \<open>\<^verbatim>\<open>os.Remove\<close>: a file or an empty directory.\<close>

definition os_Remove :: "env \<Rightarrow> path \<Rightarrow> state \<Rightarrow> error option \<times> state" where
  "os_Remove env p s =
     (if faults env (trace s) (ERemove p) \<or> p = [] \<or> fskey p = []
      then (Some (OsError (ERemove p)), emit (ERemove p) s)
      else (case lookup (fs s) (fskey p) of
              None \<Rightarrow> (Some (OsError (ERemove p)), emit (ERemove p) s)
            | Some (Dir t (e # es)) \<Rightarrow> (Some (OsError (ERemove p)), emit (ERemove p) s)
            | Some n \<Rightarrow> (None, emit (ERemove p) (s\<lparr>fs := remove_tree (fskey p) (fs s)\<rparr>))))"

definition os_MkdirAll :: "env \<Rightarrow> path \<Rightarrow> state \<Rightarrow> error option \<times> state" where
  "os_MkdirAll env p s =
     (if faults env (trace s) (EMkdirAll p) \<or> p = []
      then (Some (OsError (EMkdirAll p)), emit (EMkdirAll p) s)
      else (case mkdir_all (clock s) (fskey p) (fs s) of
              None \<Rightarrow> (Some (OsError (EMkdirAll p)), emit (EMkdirAll p) s)
            | Some t \<Rightarrow> (None, emit (EMkdirAll p) (s\<lparr>fs := t, clock := Suc (clock s)\<rparr>))))"

text \<open>\<^verbatim>\<open>os.OpenFile\<close> with \<^verbatim>\<open>O_WRONLY|O_CREATE|O_TRUNC\<close>: the file exists, empty, afterwards.\<close>

definition os_OpenFile :: "env \<Rightarrow> path \<Rightarrow> state \<Rightarrow> error option \<times> state" where
  "os_OpenFile env p s =
     (if faults env (trace s) (EOpenFile p) \<or> p = []
      then (Some (OsError (EOpenFile p)), emit (EOpenFile p) s)
      else (case write_file 0 (clock s) (fskey p) (fs s) of
              None \<Rightarrow> (Some (OsError (EOpenFile p)), emit (EOpenFile p) s)
            | Some t \<Rightarrow> (None, emit (EOpenFile p) (s\<lparr>fs := t, clock := Suc (clock s)\<rparr>))))"

text \<open>\<^verbatim>\<open>io.Copy\<close> into the file just opened; a failed copy leaves the file as it was.\<close>

definition io_Copy :: "env \<Rightarrow> path \<Rightarrow> nat \<Rightarrow> state \<Rightarrow> error option \<times> state" where
  "io_Copy env p sz s =
     (if faults env (trace s) (ECopy p)
      then (Some (OsError (ECopy p)), emit (ECopy p) s)
      else (case write_file sz (clock s) (fskey p) (fs s) of
              None \<Rightarrow> (Some (OsError (ECopy p)), emit (ECopy p) s)
            | Some t \<Rightarrow> (None, emit (ECopy p) (s\<lparr>fs := t, clock := Suc (clock s)\<rparr>))))"

definition os_WriteFile :: "env \<Rightarrow> path \<Rightarrow> string \<Rightarrow> state \<Rightarrow> error option \<times> state" where
  "os_WriteFile env p content s =
     (if faults env (trace s) (EWriteFile p) \<or> p = []
      then (Some (OsError (EWriteFile p)), emit (EWriteFile p) s)
      else (case write_file (length content) (clock s) (fskey p) (fs s) of
              None \<Rightarrow> (Some (OsError (EWriteFile p)), emit (EWriteFile p) s)
            | Some t \<Rightarrow> (None, emit (EWriteFile p) (s\<lparr>fs := t, clock := Suc (clock s)\<rparr>))))"

text \<open>\<^verbatim>\<open>zip.OpenReader\<close>: the archive must be a regular file.\<close>

definition zip_OpenReader :: "env \<Rightarrow> path \<Rightarrow> state \<Rightarrow> (error + zentry list) \<times> state" where
  "zip_OpenReader env p s =
     (if faults env (trace s) (EOpenReader p) \<or> p = [] then Inl (OsError (EOpenReader p))
      else (case lookup (fs s) (fskey p) of
              Some (File sz t) \<Rightarrow> Inr (zip_files env p)
            | _ \<Rightarrow> Inl (OsError (EOpenReader p))),
      emit (EOpenReader p) s)"


subsection \<open>Walking a directory\<close>

text \<open>
  \<^verbatim>\<open>filepath.Walk\<close>. The callback returns nil, \<^verbatim>\<open>filepath.SkipDir\<close> or another
  error; it may change a variable of its caller (the accumulator \<open>a\<close>). \<open>walk\<close> is
  the library's recursive helper: the callback sees a directory before its entries,
  \<open>SkipDir\<close> from a directory skips its entries, \<open>SkipDir\<close> from a file skips the
  rest of the directory the file is in, any other error stops the walk. The entries of
  a directory are visited in the order the tree lists them.
\<close>

datatype walk_ret = WalkNil | SkipDir | WalkErr error

type_synonym 'a walkfn = "'a \<Rightarrow> path \<Rightarrow> finfo option \<Rightarrow> error option \<Rightarrow> 'a \<times> walk_ret"

fun walk :: "env \<Rightarrow> event list \<Rightarrow> 'a walkfn \<Rightarrow> path \<Rightarrow> fnode \<Rightarrow> 'a \<Rightarrow> 'a \<times> walk_ret"
  and walk_names :: "env \<Rightarrow> event list \<Rightarrow> 'a walkfn \<Rightarrow> path \<Rightarrow> (string \<times> fnode) list \<Rightarrow> 'a \<Rightarrow> 'a \<times> walk_ret"
where
  "walk env tr fn p (File sz t) a = fn a p (Some (info_of env (File sz t))) None"
| "walk env tr fn p (Dir t es) a =
     (let err = (if faults env tr (EReadDir p) then Some (OsError (EReadDir p)) else None) in
      case fn a p (Some (info_of env (Dir t es))) err of
        (a1, err1) \<Rightarrow>
          if err \<noteq> None \<or> err1 \<noteq> WalkNil then (a1, err1)
          else walk_names env tr fn p es a1)"
| "walk_names env tr fn p [] a = (a, WalkNil)"
| "walk_names env tr fn p ((name, n) # rest) a =
     (let filename = Join [p, name] in
      if faults env tr (ELstat filename) then
        (case fn a filename None (Some (OsError (ELstat filename))) of
           (a1, WalkErr e) \<Rightarrow> (a1, WalkErr e)
         | (a1, _) \<Rightarrow> walk_names env tr fn p rest a1)
      else
        (case walk env tr fn filename n a of
           (a1, WalkNil) \<Rightarrow> walk_names env tr fn p rest a1
         | (a1, SkipDir) \<Rightarrow>
             (case n of Dir t es \<Rightarrow> walk_names env tr fn p rest a1 | File sz t \<Rightarrow> (a1, SkipDir))
         | (a1, WalkErr e) \<Rightarrow> (a1, WalkErr e)))"

definition Walk :: "env \<Rightarrow> 'a walkfn \<Rightarrow> path \<Rightarrow> 'a \<Rightarrow> state \<Rightarrow> ('a \<times> error option) \<times> state" where
  "Walk env fn root a s =
     (let r = (if faults env (trace s) (ELstat root) \<or> root = [] then
                 fn a root None (Some (OsError (ELstat root)))
               else (case lookup (fs s) (fskey root) of
                       None \<Rightarrow> fn a root None (Some (OsError (ELstat root)))
                     | Some n \<Rightarrow> walk env (trace s) fn root n a))
      in ((fst r, (case snd r of WalkErr e \<Rightarrow> Some e | _ \<Rightarrow> None)), emit (EWalk root) s))"


section \<open>Extractor (extractor.go)\<close>

text \<open>
  \<^verbatim>\<open>extractFile\<close>: the entry's name is cleaned and refused when it contains \<open>..\<close>;
  a directory entry is created, a file entry is written below \<open>destDir\<close>.
\<close>

definition extractFile :: "env \<Rightarrow> zentry \<Rightarrow> path \<Rightarrow> state \<Rightarrow> error option \<times> state" where
  "extractFile env file destDir s =
     (let cleanPath = Clean (zname file) in
      if Contains cleanPath ''..'' then (Some (InvalidFilePath (zname file)), s)
      else
        let destPath = Join [destDir, cleanPath] in
        if zis_dir file then os_MkdirAll env destPath s
        else
          (case os_MkdirAll env (Dir_of destPath) s of
             (Some e, s1) \<Rightarrow> (Some e, s1)
           | (None, s1) \<Rightarrow>
               if faults env (trace s1) (EEntryOpen (zname file))
               then (Some (OsError (EEntryOpen (zname file))), emit (EEntryOpen (zname file)) s1)
               else
                 (case os_OpenFile env destPath (emit (EEntryOpen (zname file)) s1) of
                    (Some e, s2) \<Rightarrow> (Some e, s2)
                  | (None, s2) \<Rightarrow> io_Copy env destPath (zsize file) s2)))"

text \<open>The loop of \<^verbatim>\<open>ExtractZipPlugin\<close> over the entries: the first failure ends it.\<close>

fun extract_files :: "env \<Rightarrow> zentry list \<Rightarrow> path \<Rightarrow> state \<Rightarrow> error option \<times> state" where
  "extract_files env [] pluginDir s = (None, s)"
| "extract_files env (file # files) pluginDir s =
     (case extractFile env file pluginDir s of
        (Some e, s1) \<Rightarrow> (Some (ExtractFileFailed (zname file) e), s1)
      | (None, s1) \<Rightarrow> extract_files env files pluginDir s1)"

definition ExtractZipPlugin ::
  "env \<Rightarrow> Extractor \<Rightarrow> path \<Rightarrow> string \<Rightarrow> state \<Rightarrow> (error + path) \<times> state" where
  "ExtractZipPlugin env e zipPath pluginName s =
     (let pluginDir = Join [e_basePluginDir e, pluginName] in
      case os_RemoveAll env pluginDir s of
        (Some err, s1) \<Rightarrow> (Inl (CleanDirFailed err), s1)
      | (None, s1) \<Rightarrow>
          (case os_MkdirAll env pluginDir s1 of
             (Some err, s2) \<Rightarrow> (Inl (CreateDirFailed err), s2)
           | (None, s2) \<Rightarrow>
               (case zip_OpenReader env zipPath s2 of
                  (Inl err, s3) \<Rightarrow> (Inl (ZipOpenFailed err), s3)
                | (Inr files, s3) \<Rightarrow>
                    (case extract_files env files pluginDir s3 of
                       (Some err, s4) \<Rightarrow> (Inl err, s4)
                     | (None, s4) \<Rightarrow> (Inr pluginDir, s4)))))"

definition manifest_text :: "string \<Rightarrow> string" where
  "manifest_text name =
     concat
       [''{'', [CHR 0x0A],
        ''  '', [CHR 0x22], ''name'', [CHR 0x22], '': '', [CHR 0x22], name, [CHR 0x22], '','', [CHR 0x0A],
        ''  '', [CHR 0x22], ''version'', [CHR 0x22], '': '', [CHR 0x22], ''1.0.0'', [CHR 0x22], '','', [CHR 0x0A],
        ''  '', [CHR 0x22], ''description'', [CHR 0x22], '': '', [CHR 0x22], ''Auto-generated plugin'', [CHR 0x22], '','', [CHR 0x0A],
        ''  '', [CHR 0x22], ''author'', [CHR 0x22], '': '', [CHR 0x22], ''Unknown'', [CHR 0x22], '','', [CHR 0x0A],
        ''  '', [CHR 0x22], ''main'', [CHR 0x22], '': '', [CHR 0x22], ''main.go'', [CHR 0x22], '','', [CHR 0x0A],
        ''  '', [CHR 0x22], ''dependencies'', [CHR 0x22], '': {'', [CHR 0x0A],
        ''    '', [CHR 0x22], ''go'', [CHR 0x22], '': '', [CHR 0x22], ''1.21'', [CHR 0x22], [CHR 0x0A],
        ''  }'', [CHR 0x0A],
        ''}'']"

definition generateManifest :: "env \<Rightarrow> path \<Rightarrow> state \<Rightarrow> error option \<times> state" where
  "generateManifest env pluginDir s =
     os_WriteFile env (Join [pluginDir, ''plugin.json'']) (manifest_text (Base pluginDir)) s"

definition ValidatePluginStructure :: "env \<Rightarrow> path \<Rightarrow> state \<Rightarrow> error option \<times> state" where
  "ValidatePluginStructure env pluginDir s =
     (case os_Stat env (Join [pluginDir, ''main.go'']) s of
        (NotExist, s1) \<Rightarrow> (Some MissingMainGo, s1)
      | (_, s1) \<Rightarrow>
          (case os_Stat env (Join [pluginDir, ''plugin.json'']) s1 of
             (NotExist, s2) \<Rightarrow> generateManifest env pluginDir s2
           | (_, s2) \<Rightarrow> (None, s2)))"

section \<open>Compiler (compiler.go)\<close>

definition go_mod_text :: "string \<Rightarrow> string" where
  "go_mod_text pluginName =
     concat
       [''module '', pluginName, [CHR 0x0A], [CHR 0x0A],
        ''go 1.21'', [CHR 0x0A], [CHR 0x0A],
        ''require ('', [CHR 0x0A],
        [CHR 0x09], ''github.com/gin-gonic/gin v1.9.1'', [CHR 0x0A],
        [CHR 0x09], ''go.mongodb.org/mongo-driver v1.12.1'', [CHR 0x0A],
        '')'', [CHR 0x0A]]"

definition createGoMod :: "env \<Rightarrow> path \<Rightarrow> string \<Rightarrow> state \<Rightarrow> error option \<times> state" where
  "createGoMod env pluginDir pluginName s =
     os_WriteFile env (Join [pluginDir, ''go.mod'']) (go_mod_text pluginName) s"

text \<open>The two toolchain commands of the compiler, and the symbol dump of the validation.\<close>

definition exec_go_mod_tidy :: "env \<Rightarrow> path \<Rightarrow> state \<Rightarrow> bool \<times> state" where
  "exec_go_mod_tidy env dir s = (go_mod_tidy env dir, emit (EGoModTidy dir) s)"

text \<open>
  The build runs with \<^verbatim>\<open>cmd.Dir = pluginDir\<close>, so the toolchain resolves a relative
  \<^verbatim>\<open>-o\<close> path against \<open>dir\<close>, not against the directory of this process. A build
  that leaves an output creates the directories it needs.
\<close>

definition resolve_in :: "path \<Rightarrow> path \<Rightarrow> path" where
  "resolve_in dir p = (if rooted p then p else Join [dir, p])"

definition exec_go_build :: "env \<Rightarrow> path \<Rightarrow> path \<Rightarrow> state \<Rightarrow> bool \<times> state" where
  "exec_go_build env dir out s =
     (case go_build env dir out of
        BuildFails \<Rightarrow> (False, emit (EGoBuild dir out) s)
      | BuildNoOutput \<Rightarrow> (True, emit (EGoBuild dir out) s)
      | BuildOutput sz \<Rightarrow>
          (True,
           (case mkdir_all (clock s) (butlast (fskey (resolve_in dir out))) (fs s) of
              None \<Rightarrow> emit (EGoBuild dir out) s
            | Some t1 \<Rightarrow>
                (case write_file sz (clock s) (fskey (resolve_in dir out)) t1 of
                   None \<Rightarrow> emit (EGoBuild dir out) s
                 | Some t \<Rightarrow> emit (EGoBuild dir out) (s\<lparr>fs := t, clock := Suc (clock s)\<rparr>)))))"

definition ensureGoMod :: "env \<Rightarrow> path \<Rightarrow> string \<Rightarrow> state \<Rightarrow> error option \<times> state" where
  "ensureGoMod env pluginDir pluginName s =
     (case os_Stat env (Join [pluginDir, ''go.mod'']) s of
        (st, s1) \<Rightarrow>
          (case (if st = NotExist then createGoMod env pluginDir pluginName s1 else (None, s1)) of
             (Some e, s2) \<Rightarrow> (Some e, s2)
           | (None, s2) \<Rightarrow>
               (case exec_go_mod_tidy env pluginDir s2 of
                  (True, s3) \<Rightarrow> (None, s3)
                | (False, s3) \<Rightarrow> (Some GoModTidyFailed, s3))))"

definition CompilePlugin ::
  "env \<Rightarrow> Compiler \<Rightarrow> path \<Rightarrow> string \<Rightarrow> state \<Rightarrow> (error + path) \<times> state" where
  "CompilePlugin env c pluginDir pluginName s =
     (case os_MkdirAll env (c_buildDir c) s of
        (Some e, s1) \<Rightarrow> (Inl (BuildDirFailed e), s1)
      | (None, s1) \<Rightarrow>
          (let outputFile = Join [c_buildDir c, pluginName @ ''.so''] in
           case ensureGoMod env pluginDir pluginName (snd (os_Remove env outputFile s1)) of
             (Some e, s3) \<Rightarrow> (Inl (GoModSetupFailed e), s3)
           | (None, s3) \<Rightarrow>
               (case exec_go_build env pluginDir outputFile s3 of
                  (False, s4) \<Rightarrow> (Inl CompilationFailed, s4)
                | (True, s4) \<Rightarrow>
                    (case os_Stat env outputFile s4 of
                       (NotExist, s5) \<Rightarrow> (Inl (OutputNotFound outputFile), s5)
                     | (_, s5) \<Rightarrow> (Inr outputFile, s5)))))"

text \<open>
  The callback of \<^verbatim>\<open>needsRecompilation\<close>; its accumulator is the variable
  \<^verbatim>\<open>needsRecompile\<close> of the enclosing function.
\<close>

definition newer_source :: "nat \<Rightarrow> bool walkfn" where
  "newer_source targetTime needsRecompile p info err =
     (case err of
        Some e \<Rightarrow> (needsRecompile, WalkErr e)
      | None \<Rightarrow>
          if HasSuffix p ''.go'' \<or> HasSuffix p ''go.mod'' \<or> HasSuffix p ''go.sum'' then
            (case info of
               None \<Rightarrow> (needsRecompile, WalkErr Panic)
             | Some i \<Rightarrow> if targetTime < ModTime i then (True, SkipDir) else (needsRecompile, WalkNil))
          else (needsRecompile, WalkNil))"

definition needsRecompilation ::
  "env \<Rightarrow> path \<Rightarrow> nat \<Rightarrow> state \<Rightarrow> (bool \<times> error option) \<times> state" where
  "needsRecompilation env pluginDir targetTime s = Walk env (newer_source targetTime) pluginDir False s"

text \<open>
  \<^verbatim>\<open>CompileWithCache\<close> returns the output path, whether it compiled, and the error.
  When \<^verbatim>\<open>os.Stat\<close> fails with another error than "not exist", \<^verbatim>\<open>soInfo\<close> is nil and
  \<^verbatim>\<open>soInfo.ModTime()\<close> panics: the result \<open>Panic\<close>, which every caller passes on.
\<close>

definition compile_now ::
  "env \<Rightarrow> Compiler \<Rightarrow> path \<Rightarrow> string \<Rightarrow> state \<Rightarrow> (path \<times> bool \<times> error option) \<times> state" where
  "compile_now env c pluginDir pluginName s =
     (case CompilePlugin env c pluginDir pluginName s of
        (Inl e, s1) \<Rightarrow> (([], True, Some e), s1)
      | (Inr compiled, s1) \<Rightarrow> ((compiled, True, None), s1))"

definition CompileWithCache ::
  "env \<Rightarrow> Compiler \<Rightarrow> path \<Rightarrow> string \<Rightarrow> state \<Rightarrow> (path \<times> bool \<times> error option) \<times> state" where
  "CompileWithCache env c pluginDir pluginName s =
     (let outputFile = Join [c_buildDir c, pluginName @ ''.so''] in
      case os_Stat env outputFile s of
        (NotExist, s1) \<Rightarrow> compile_now env c pluginDir pluginName s1
      | (StatError, s1) \<Rightarrow> (([], False, Some Panic), s1)
      | (Info soInfo, s1) \<Rightarrow>
          (case needsRecompilation env pluginDir (ModTime soInfo) s1 of
             ((needsRecompile, Some e), s2) \<Rightarrow> (([], False, Some e), s2)
           | ((needsRecompile, None), s2) \<Rightarrow>
               if needsRecompile then compile_now env c pluginDir pluginName s2
               else ((outputFile, False, None), s2)))"

definition ValidateCompilation :: "env \<Rightarrow> path \<Rightarrow> state \<Rightarrow> error option \<times> state" where
  "ValidateCompilation env soPath s =
     (case objdump env soPath of
        None \<Rightarrow> (Some ObjdumpFailed, emit (EObjdump soPath) s)
      | Some output \<Rightarrow>
          if \<not> Contains output ''NewPlugin'' then (Some NewPluginNotExported, emit (EObjdump soPath) s)
          else (None, emit (EObjdump soPath) s))"


section \<open>Loader (loader.go)\<close>

subsection \<open>The dynamic loader and the plugin contract\<close>

text \<open>
  \<^verbatim>\<open>plugin.Open\<close>, \<^verbatim>\<open>p.Lookup("NewPlugin")\<close> and the call of the constructor. A
  constructor that returns an object returns a new one: it gets the next identity.
\<close>

definition plugin_Open :: "env \<Rightarrow> path \<Rightarrow> state \<Rightarrow> bool \<times> state" where
  "plugin_Open env p s = (dlopen env p \<noteq> OpenFails, emit (EPluginOpen p) s)"

definition plugin_Lookup :: "env \<Rightarrow> path \<Rightarrow> state \<Rightarrow> bool \<times> state" where
  "plugin_Lookup env p s = (dlopen env p \<noteq> NoNewPlugin, emit (ELookup p) s)"

definition newPluginFunc :: "env \<Rightarrow> path \<Rightarrow> state \<Rightarrow> plugin option \<times> state" where
  "newPluginFunc env p s =
     (case dlopen env p of
        Returns_plugin n v i sh \<Rightarrow>
          (Some (Plugin (next_obj s) n v i sh), emit (ENewPlugin p) (s\<lparr>next_obj := Suc (next_obj s)\<rparr>))
      | _ \<Rightarrow> (None, emit (ENewPlugin p) s))"

definition plugin_Initialize :: "plugin \<Rightarrow> state \<Rightarrow> error option \<times> state" where
  "plugin_Initialize inst s =
     (if init_ok inst then None else Some (PluginError (obj inst)), emit (EInitialize (obj inst)) s)"

definition plugin_Shutdown :: "plugin \<Rightarrow> state \<Rightarrow> error option \<times> state" where
  "plugin_Shutdown inst s =
     (if shutdown_ok inst then None else Some (PluginError (obj inst)), emit (EShutdown (obj inst)) s)"

subsection \<open>Loading\<close>

definition isPluginSupported :: "env \<Rightarrow> bool" where
  "isPluginSupported env =
     (case map_of [(''linux'', True), (''darwin'', True), (''freebsd'', True)] (goos env) of
        None \<Rightarrow> False
      | Some b \<Rightarrow> b)"

definition getPluginNameFromPath :: "path \<Rightarrow> string" where
  "getPluginNameFromPath p = TrimSuffix (Base p) ''.so''"

text \<open>\<^verbatim>\<open>l.loadedPlugins[pluginName] = p\<close>; the handle is known by the path it was opened from.\<close>

definition store_handle :: "string \<Rightarrow> path \<Rightarrow> state \<Rightarrow> state" where
  "store_handle pluginName p s =
     s\<lparr>m_loader := (m_loader s)\<lparr>l_loadedPlugins :=
          AList.update pluginName p (l_loadedPlugins (m_loader s))\<rparr>\<rparr>"

definition LoadPluginFromFile :: "env \<Rightarrow> path \<Rightarrow> state \<Rightarrow> error option \<times> state" where
  "LoadPluginFromFile env p s =
     (if \<not> isPluginSupported env then (Some (PlatformUnsupported (goos env) (goarch env)), s)
      else
        (case os_Stat env p s of
           (NotExist, s1) \<Rightarrow> (Some (PluginFileNotFound p), s1)
         | (_, s1) \<Rightarrow>
             (case plugin_Open env p s1 of
                (False, s2) \<Rightarrow> (Some (OpenFailed p), s2)
              | (True, s2) \<Rightarrow>
                  (case plugin_Lookup env p (store_handle (getPluginNameFromPath p) p s2) of
                     (False, s3) \<Rightarrow> (Some (MissingNewPlugin p), s3)
                   | (True, s3) \<Rightarrow>
                       if dlopen env p = WrongType then (Some (WrongNewPluginType p), s3)
                       else
                         (case newPluginFunc env p s3 of
                            (None, s4) \<Rightarrow> (Some (NewPluginNil p), s4)
                          | (Some pluginInstance, s4) \<Rightarrow> (None, s4))))))"

definition loadCompiledPlugin :: "env \<Rightarrow> path \<Rightarrow> state \<Rightarrow> (error + plugin) \<times> state" where
  "loadCompiledPlugin env soPath s =
     (case plugin_Open env soPath s of
        (False, s1) \<Rightarrow> (Inl (OpenFailed soPath), s1)
      | (True, s1) \<Rightarrow>
          (case plugin_Lookup env soPath (store_handle (getPluginNameFromPath soPath) soPath s1) of
             (False, s2) \<Rightarrow> (Inl (MissingNewPlugin soPath), s2)
           | (True, s2) \<Rightarrow>
               if dlopen env soPath = WrongType then (Inl (WrongNewPluginType soPath), s2)
               else
                 (case newPluginFunc env soPath s2 of
                    (None, s3) \<Rightarrow> (Inl (NewPluginNil soPath), s3)
                  | (Some pluginInstance, s3) \<Rightarrow> (Inr pluginInstance, s3))))"

definition LoadPluginFromDirectory :: "env \<Rightarrow> string \<Rightarrow> state \<Rightarrow> (error + plugin) \<times> state" where
  "LoadPluginFromDirectory env pluginName s =
     (let pluginDir = Join [l_pluginDir (m_loader s), pluginName] in
      case os_Stat env pluginDir s of
        (NotExist, s1) \<Rightarrow> (Inl (PluginDirNotFound pluginDir), s1)
      | (_, s1) \<Rightarrow>
          (case CompileWithCache env (l_compiler (m_loader s1)) pluginDir pluginName s1 of
             ((soPath, recompiled, Some e), s2) \<Rightarrow>
               if e = Panic then (Inl Panic, s2) else (Inl (CompileFailed e), s2)
           | ((soPath, recompiled, None), s2) \<Rightarrow> loadCompiledPlugin env soPath s2))"

text \<open>
  \<^verbatim>\<open>InstallFromZip\<close>: extract, validate the structure, compile, validate the artifact,
  load it once, remove the archive. The clean-up calls ignore their errors. A failed
  extraction returns at once, with no clean-up call.
\<close>

definition InstallFromZip :: "env \<Rightarrow> path \<Rightarrow> string \<Rightarrow> state \<Rightarrow> error option \<times> state" where
  "InstallFromZip env zipPath pluginName s =
     (case ExtractZipPlugin env (l_extractor (m_loader s)) zipPath pluginName s of
        (Inl e, s1) \<Rightarrow> (Some (ExtractFailed e), s1)
      | (Inr pluginDir, s1) \<Rightarrow>
          (case ValidatePluginStructure env pluginDir s1 of
             (Some e, s2) \<Rightarrow> (Some (InvalidStructure e), snd (os_RemoveAll env pluginDir s2))
           | (None, s2) \<Rightarrow>
               (case CompileWithCache env (l_compiler (m_loader s2)) pluginDir pluginName s2 of
                  ((soPath, recompiled, Some e), s3) \<Rightarrow>
                    if e = Panic then (Some Panic, s3)
                    else (Some (CompileFailed e), snd (os_RemoveAll env pluginDir s3))
                | ((soPath, recompiled, None), s3) \<Rightarrow>
                    (case ValidateCompilation env soPath s3 of
                       (Some e, s4) \<Rightarrow>
                         (Some (CompilationValidationFailed e),
                          snd (os_Remove env soPath (snd (os_RemoveAll env pluginDir s4))))
                     | (None, s4) \<Rightarrow>
                         (case LoadPluginFromFile env soPath s4 of
                            (Some e, s5) \<Rightarrow>
                              (Some (LoadCompiledFailed e),
                               snd (os_Remove env soPath (snd (os_RemoveAll env pluginDir s5))))
                          | (None, s5) \<Rightarrow> (None, snd (os_Remove env zipPath s5)))))))"

subsection \<open>Loading everything below the plugin root\<close>

text \<open>\<^verbatim>\<open>os.ReadDir\<close> (names and whether each is a directory) and \<^verbatim>\<open>filepath.Glob\<close> for the pattern \<open>*.so\<close> in a directory; \<open>Glob\<close> ignores what it cannot read.\<close>

definition os_ReadDir :: "env \<Rightarrow> path \<Rightarrow> state \<Rightarrow> (error + (string \<times> bool) list) \<times> state" where
  "os_ReadDir env p s =
     (if faults env (trace s) (EReadDir p) \<or> p = [] then Inl (OsError (EReadDir p))
      else (case lookup (fs s) (fskey p) of
              Some (Dir t es) \<Rightarrow> Inr (map (\<lambda>(n, node). (n, IsDir (info_of env node))) es)
            | _ \<Rightarrow> Inl (OsError (EReadDir p))),
      emit (EReadDir p) s)"

definition filepath_Glob_so :: "env \<Rightarrow> path \<Rightarrow> state \<Rightarrow> (error + path list) \<times> state" where
  "filepath_Glob_so env dir s =
     (if faults env (trace s) (EGlob (Join [dir, ''*.so''])) then Inl (OsError (EGlob (Join [dir, ''*.so''])))
      else (case lookup (fs s) (fskey dir) of
              Some (Dir t es) \<Rightarrow> Inr (map (\<lambda>n. Join [dir, n]) (filter (\<lambda>n. HasSuffix n ''.so'') (map fst es)))
            | _ \<Rightarrow> Inr []),
      emit (EGlob (Join [dir, ''*.so''])) s)"

text \<open>
  The loop over the directory entries; the last component of its result says whether a
  load panicked, which ends the loop and \<^verbatim>\<open>LoadAllPlugins\<close>.
\<close>

fun load_dirs ::
  "env \<Rightarrow> (string \<times> bool) list \<Rightarrow> (string \<times> plugin) list \<Rightarrow> (string \<times> error) list \<Rightarrow> state
   \<Rightarrow> ((string \<times> plugin) list \<times> (string \<times> error) list \<times> bool) \<times> state" where
  "load_dirs env [] found loadErrors s = ((found, loadErrors, False), s)"
| "load_dirs env ((name, isdir) # rest) found loadErrors s =
     (if \<not> isdir \<or> HasPrefix name ''.'' then load_dirs env rest found loadErrors s
      else
        (case LoadPluginFromDirectory env name s of
           (Inl e, s1) \<Rightarrow>
             if e = Panic then ((found, loadErrors, True), s1)
             else load_dirs env rest found (loadErrors @ [(name, e)]) s1
         | (Inr pluginInstance, s1) \<Rightarrow>
             load_dirs env rest (AList.update (info_name pluginInstance) pluginInstance found) loadErrors s1))"

fun load_so_files ::
  "env \<Rightarrow> path list \<Rightarrow> (string \<times> plugin) list \<Rightarrow> (string \<times> error) list \<Rightarrow> state
   \<Rightarrow> ((string \<times> plugin) list \<times> (string \<times> error) list) \<times> state" where
  "load_so_files env [] found loadErrors s = ((found, loadErrors), s)"
| "load_so_files env (soPath # rest) found loadErrors s =
     (if map_of found (getPluginNameFromPath soPath) \<noteq> None then load_so_files env rest found loadErrors s
      else
        (case loadCompiledPlugin env soPath s of
           (Inl e, s1) \<Rightarrow> load_so_files env rest found (loadErrors @ [(getPluginNameFromPath soPath, e)]) s1
         | (Inr pluginInstance, s1) \<Rightarrow>
             load_so_files env rest (AList.update (info_name pluginInstance) pluginInstance found) loadErrors s1))"

definition LoadAllPlugins :: "env \<Rightarrow> state \<Rightarrow> ((string \<times> plugin) list \<times> error option) \<times> state" where
  "LoadAllPlugins env s =
     (case os_MkdirAll env (l_pluginDir (m_loader s)) s of
        (Some e, s1) \<Rightarrow> (([], Some (CreateDirFailed e)), s1)
      | (None, s1) \<Rightarrow>
          (case os_ReadDir env (l_pluginDir (m_loader s1)) s1 of
             (Inl e, s2) \<Rightarrow> (([], Some (ReadDirFailed e)), s2)
           | (Inr entries, s2) \<Rightarrow>
               (case load_dirs env entries [] [] s2 of
                  ((found, loadErrors, True), s3) \<Rightarrow> ((found, Some Panic), s3)
                | ((found, loadErrors, False), s3) \<Rightarrow>
                    (case (case filepath_Glob_so env (l_pluginDir (m_loader s3)) s3 of
                             (Inl e, s4) \<Rightarrow> ((found, loadErrors), s4)
                           | (Inr soFiles, s4) \<Rightarrow> load_so_files env soFiles found loadErrors s4) of
                       ((found', loadErrors'), s5) \<Rightarrow>
                         if loadErrors' \<noteq> [] then ((found', Some (LoadSomeFailed loadErrors')), s5)
                         else ((found', None), s5)))))"

subsection \<open>Validation, uninstall, recompile\<close>

record PluginValidationResult =
  IsValid :: bool
  Errors :: "string list"
  Warnings :: "string list"

definition ValidateZipPlugin ::
  "env \<Rightarrow> path \<Rightarrow> state \<Rightarrow> (PluginValidationResult \<times> error option) \<times> state" where
  "ValidateZipPlugin env zipPath s =
     (if \<not> HasSuffix (ToLower (unicode_lower env) zipPath) ''.zip'' then
        ((\<lparr>IsValid = False, Errors = [''File must be a .zip archive''], Warnings = []\<rparr>, None), s)
      else
        (case os_Stat env zipPath s of
           (Info info, s1) \<Rightarrow>
             if 100 * 1024 * 1024 < Size info then
               ((\<lparr>IsValid = False, Errors = [''Plugin file too large (max 100MB)''], Warnings = []\<rparr>, None), s1)
             else if Size info = 0 then
               ((\<lparr>IsValid = False, Errors = [''Plugin file is empty''], Warnings = []\<rparr>, None), s1)
             else ((\<lparr>IsValid = True, Errors = [], Warnings = []\<rparr>, None), s1)
         | (_, s1) \<Rightarrow>
             ((\<lparr>IsValid = False, Errors = [''Cannot access file''], Warnings = []\<rparr>, None), s1)))"

definition Loader_UninstallPlugin :: "env \<Rightarrow> string \<Rightarrow> state \<Rightarrow> error option \<times> state" where
  "Loader_UninstallPlugin env pluginName s =
     (let pluginDir = Join [l_pluginDir (m_loader s), pluginName];
          soPath = Join [l_buildDir (m_loader s), pluginName @ ''.so'']
      in case os_RemoveAll env pluginDir s of
           (Some e, s1) \<Rightarrow> (Some (RemoveDirFailed e), s1)
         | (None, s1) \<Rightarrow>
             (case os_Remove env soPath s1 of
                (r, s2) \<Rightarrow>
                  (None, s2\<lparr>m_loader := (m_loader s2)\<lparr>l_loadedPlugins :=
                               AList.delete pluginName (l_loadedPlugins (m_loader s2))\<rparr>\<rparr>)))"

definition RecompilePlugin :: "env \<Rightarrow> string \<Rightarrow> state \<Rightarrow> error option \<times> state" where
  "RecompilePlugin env pluginName s =
     (let pluginDir = Join [l_pluginDir (m_loader s), pluginName];
          soPath = Join [l_buildDir (m_loader s), pluginName @ ''.so'']
      in case CompilePlugin env (l_compiler (m_loader s)) pluginDir pluginName (snd (os_Remove env soPath s)) of
           (Inl e, s2) \<Rightarrow> (Some e, s2)
         | (Inr compiled, s2) \<Rightarrow> (None, s2))"


section \<open>Manager (manager.go)\<close>

subsection \<open>The lock and the maps\<close>

text \<open>
  \<^verbatim>\<open>m.mu\<close> is a \<^verbatim>\<open>sync.RWMutex\<close>, which is not reentrant. A run of one method has
  nobody else to release the lock: \<^verbatim>\<open>Lock\<close> on a lock that is held, and
  \<^verbatim>\<open>RLock\<close> on a lock held for writing, never return, which is the value \<open>None\<close>.
\<close>

definition Lock :: "state \<Rightarrow> state option" where
  "Lock s = (if mu_writer s \<or> 0 < mu_readers s then None else Some (emit ELock (s\<lparr>mu_writer := True\<rparr>)))"

definition Unlock :: "state \<Rightarrow> state" where
  "Unlock s = emit EUnlock (s\<lparr>mu_writer := False\<rparr>)"

definition RLock :: "state \<Rightarrow> state option" where
  "RLock s = (if mu_writer s then None else Some (emit ERLock (s\<lparr>mu_readers := Suc (mu_readers s)\<rparr>)))"

definition RUnlock :: "state \<Rightarrow> state" where
  "RUnlock s = emit ERUnlock (s\<lparr>mu_readers := mu_readers s - 1\<rparr>)"

text \<open>
  How a call of a Manager method ends: it never returns (blocked on the lock), it
  panics, or it returns an error or nil. The state of a panic is the one the deferred
  calls leave.
\<close>

datatype run = Blocks | Panics state | Returns "error option" state

text \<open>
  A method that starts with \<^verbatim>\<open>m.mu.Lock(); defer m.mu.Unlock()\<close>: the deferred unlock
  runs when the body returns and when it panics.
\<close>

definition finish :: "error option \<times> state \<Rightarrow> run" where
  "finish b = (case b of (r, s1) \<Rightarrow> if r = Some Panic then Panics (Unlock s1) else Returns r (Unlock s1))"

definition locked :: "(state \<Rightarrow> error option \<times> state) \<Rightarrow> state \<Rightarrow> run" where
  "locked body s = (case Lock s of None \<Rightarrow> Blocks | Some s0 \<Rightarrow> finish (body s0))"

text \<open>
  A Go map is an association list; \<open>map_of\<close> reads it, \<open>AList.update\<close> assigns,
  \<open>AList.delete\<close> deletes. A \<^verbatim>\<open>range\<close> loop meets every key once, with its value.
\<close>

definition range_map :: "('k \<times> 'v) list \<Rightarrow> ('k \<times> 'v) list" where
  "range_map m = AList.clearjunk m"

text \<open>
  A reference to a map of plugins: the Manager's own registry, or a map made by
  \<^verbatim>\<open>make\<close>. A caller that holds a reference can read, assign and delete through it.
\<close>

datatype mapref = MgrPlugins | HeapMap nat

definition make_map :: "state \<Rightarrow> mapref \<times> state" where
  "make_map s = (HeapMap (next_ref s), s\<lparr>heap := (heap s)(next_ref s \<mapsto> []), next_ref := Suc (next_ref s)\<rparr>)"

fun map_read :: "mapref \<Rightarrow> state \<Rightarrow> (string \<times> plugin) list" where
  "map_read MgrPlugins s = m_plugins s"
| "map_read (HeapMap a) s = (case heap s a of None \<Rightarrow> [] | Some m \<Rightarrow> m)"

fun map_assign :: "mapref \<Rightarrow> string \<Rightarrow> plugin \<Rightarrow> state \<Rightarrow> state" where
  "map_assign MgrPlugins k v s = s\<lparr>m_plugins := AList.update k v (m_plugins s)\<rparr>"
| "map_assign (HeapMap a) k v s =
     (case heap s a of None \<Rightarrow> s | Some m \<Rightarrow> s\<lparr>heap := (heap s)(a \<mapsto> AList.update k v m)\<rparr>)"

fun map_delete :: "mapref \<Rightarrow> string \<Rightarrow> state \<Rightarrow> state" where
  "map_delete MgrPlugins k s = s\<lparr>m_plugins := AList.delete k (m_plugins s)\<rparr>"
| "map_delete (HeapMap a) k s =
     (case heap s a of None \<Rightarrow> s | Some m \<Rightarrow> s\<lparr>heap := (heap s)(a \<mapsto> AList.delete k m)\<rparr>)"

subsection \<open>Install, load, unload\<close>

definition registerPluginRoutes :: "env \<Rightarrow> string \<Rightarrow> plugin \<Rightarrow> state \<Rightarrow> state" where
  "registerPluginRoutes env name inst s =
     (if \<not> m_router s then s
      else emit (ERegisterRoutes (ToLower (unicode_lower env) name) (obj inst)) s)"

text \<open>\<^verbatim>\<open>m.plugins[info.Name] = pluginInstance; m.pluginPaths[info.Name] = pluginName\<close>, then the routes.\<close>

definition store_plugin :: "env \<Rightarrow> plugin \<Rightarrow> string \<Rightarrow> state \<Rightarrow> state" where
  "store_plugin env pluginInstance pluginName s =
     (let s1 = s\<lparr>m_plugins := AList.update (info_name pluginInstance) pluginInstance (m_plugins s),
                 m_pluginPaths := AList.update (info_name pluginInstance) pluginName (m_pluginPaths s)\<rparr>
      in if m_router s1 then registerPluginRoutes env (info_name pluginInstance) pluginInstance s1 else s1)"

text \<open>
  The body of \<^verbatim>\<open>InstallPluginFromZip\<close>, between \<^verbatim>\<open>m.mu.Lock()\<close> and the deferred
  \<^verbatim>\<open>m.mu.Unlock()\<close>.
\<close>

definition InstallPluginFromZip_body :: "env \<Rightarrow> path \<Rightarrow> string \<Rightarrow> state \<Rightarrow> error option \<times> state" where
  "InstallPluginFromZip_body env zipPath pluginName s =
     (case ValidateZipPlugin env zipPath s of
        ((validationResult, Some err), s1) \<Rightarrow> (Some (ValidationError err), s1)
      | ((validationResult, None), s1) \<Rightarrow>
          if \<not> IsValid validationResult then (Some (InvalidPlugin (Errors validationResult)), s1)
          else if map_of (m_plugins s1) pluginName \<noteq> None then (Some (AlreadyInstalled pluginName), s1)
          else
            (case InstallFromZip env zipPath pluginName s1 of
               (Some err, s2) \<Rightarrow>
                 if err = Panic then (Some Panic, s2) else (Some (InstallationFailed err), s2)
             | (None, s2) \<Rightarrow>
                 (case LoadPluginFromDirectory env pluginName s2 of
                    (Inl err, s3) \<Rightarrow>
                      if err = Panic then (Some Panic, s3) else (Some (LoadInstalledFailed err), s3)
                  | (Inr pluginInstance, s3) \<Rightarrow>
                      (case (if m_deps s3 then plugin_Initialize pluginInstance s3 else (None, s3)) of
                         (Some err, s4) \<Rightarrow>
                           (Some (InitializeFailed pluginName err),
                            snd (Loader_UninstallPlugin env pluginName s4))
                       | (None, s4) \<Rightarrow> (None, store_plugin env pluginInstance pluginName s4)))))"

definition InstallPluginFromZip :: "env \<Rightarrow> path \<Rightarrow> string \<Rightarrow> state \<Rightarrow> run" where
  "InstallPluginFromZip env zipPath pluginName s =
     locked (InstallPluginFromZip_body env zipPath pluginName) s"

text \<open>The loop of \<^verbatim>\<open>LoadPlugins\<close> over the plugins that \<^verbatim>\<open>LoadAllPlugins\<close> returned.\<close>

fun init_loaded :: "(string \<times> plugin) list \<Rightarrow> state \<Rightarrow> state" where
  "init_loaded [] s = s"
| "init_loaded ((name, inst) # rest) s =
     (case (if m_deps s then plugin_Initialize inst s else (None, s)) of
        (Some err, s1) \<Rightarrow> init_loaded rest s1
      | (None, s1) \<Rightarrow>
          init_loaded rest
            (s1\<lparr>m_plugins := AList.update name inst (m_plugins s1),
                m_pluginPaths := AList.update name name (m_pluginPaths s1)\<rparr>))"

definition LoadPlugins_body :: "env \<Rightarrow> path \<Rightarrow> state \<Rightarrow> error option \<times> state" where
  "LoadPlugins_body env pluginDir s =
     (case LoadAllPlugins env s of
        ((found, err), s1) \<Rightarrow>
          if err = Some Panic then (Some Panic, s1)
          else (None, init_loaded (range_map found) s1))"

definition LoadPlugins :: "env \<Rightarrow> path \<Rightarrow> state \<Rightarrow> run" where
  "LoadPlugins env pluginDir s = locked (LoadPlugins_body env pluginDir) s"

definition LoadPlugin_body :: "env \<Rightarrow> string \<Rightarrow> state \<Rightarrow> error option \<times> state" where
  "LoadPlugin_body env pluginName s =
     (if map_of (m_plugins s) pluginName \<noteq> None then (Some (AlreadyLoaded pluginName), s)
      else
        (case LoadPluginFromDirectory env pluginName s of
           (Inl err, s1) \<Rightarrow>
             if err = Panic then (Some Panic, s1) else (Some (LoadFailed pluginName err), s1)
         | (Inr pluginInstance, s1) \<Rightarrow>
             (case (if m_deps s1 then plugin_Initialize pluginInstance s1 else (None, s1)) of
                (Some err, s2) \<Rightarrow> (Some (InitializeFailed pluginName err), s2)
              | (None, s2) \<Rightarrow> (None, store_plugin env pluginInstance pluginName s2))))"

definition LoadPlugin :: "env \<Rightarrow> string \<Rightarrow> state \<Rightarrow> run" where
  "LoadPlugin env pluginName s = locked (LoadPlugin_body env pluginName) s"

definition UnloadPlugin_body :: "string \<Rightarrow> state \<Rightarrow> error option \<times> state" where
  "UnloadPlugin_body name s =
     (case map_of (m_plugins s) name of
        None \<Rightarrow> (Some (NotFound name), s)
      | Some inst \<Rightarrow>
          (case plugin_Shutdown inst s of
             (r, s1) \<Rightarrow>
               (None, s1\<lparr>m_plugins := AList.delete name (m_plugins s1),
                         m_pluginPaths := AList.delete name (m_pluginPaths s1)\<rparr>)))"

definition UnloadPlugin :: "string \<Rightarrow> state \<Rightarrow> run" where
  "UnloadPlugin name s = locked (UnloadPlugin_body name) s"

subsection \<open>Uninstall, reload, hot reload\<close>

text \<open>\<^verbatim>\<open>UninstallPlugin\<close> takes no lock of its own.\<close>

definition UninstallPlugin :: "env \<Rightarrow> string \<Rightarrow> state \<Rightarrow> run" where
  "UninstallPlugin env name s =
     (case (if map_of (m_plugins s) name \<noteq> None then UnloadPlugin name s else Returns None s) of
        Blocks \<Rightarrow> Blocks
      | Panics s1 \<Rightarrow> Panics s1
      | Returns (Some err) s1 \<Rightarrow> Returns (Some (UnloadFailed err)) s1
      | Returns None s1 \<Rightarrow>
          (case Loader_UninstallPlugin env name s1 of
             (Some err, s2) \<Rightarrow> Returns (Some (UninstallFailed err)) s2
           | (None, s2) \<Rightarrow> Returns None s2))"

text \<open>
  \<^verbatim>\<open>ReloadPlugin\<close> reads the plugin's path under the read lock, releases it, and then
  calls \<^verbatim>\<open>UnloadPlugin\<close>, \<^verbatim>\<open>RecompilePlugin\<close> and \<^verbatim>\<open>LoadPlugin\<close> in turn.
\<close>

definition ReloadPlugin :: "env \<Rightarrow> string \<Rightarrow> state \<Rightarrow> run" where
  "ReloadPlugin env name s =
     (case RLock s of
        None \<Rightarrow> Blocks
      | Some s0 \<Rightarrow>
          (case map_of (m_pluginPaths s0) name of
             None \<Rightarrow> Returns (Some (NotFound name)) (RUnlock s0)
           | Some pluginPath \<Rightarrow>
               (case UnloadPlugin name (RUnlock s0) of
                  Blocks \<Rightarrow> Blocks
                | Panics s1 \<Rightarrow> Panics s1
                | Returns (Some err) s1 \<Rightarrow> Returns (Some (UnloadFailed err)) s1
                | Returns None s1 \<Rightarrow>
                    (case RecompilePlugin env pluginPath s1 of
                       (Some err, s2) \<Rightarrow> Returns (Some (RecompileFailed err)) s2
                     | (None, s2) \<Rightarrow> LoadPlugin env pluginPath s2))))"

text \<open>
  \<^verbatim>\<open>HotReload\<close> takes the lock, collects the names, calls \<^verbatim>\<open>UnloadPlugin\<close> for each
  and then \<^verbatim>\<open>LoadPlugins\<close>; both take the lock themselves. The result of the loop is
  the state after it, or how it ended early.
\<close>

fun unload_each :: "string list \<Rightarrow> state \<Rightarrow> run" where
  "unload_each [] s = Returns None s"
| "unload_each (name # names) s =
     (case UnloadPlugin name s of
        Blocks \<Rightarrow> Blocks
      | Panics s1 \<Rightarrow> Panics s1
      | Returns r s1 \<Rightarrow> unload_each names s1)"

definition HotReload :: "env \<Rightarrow> state \<Rightarrow> run" where
  "HotReload env s =
     (case Lock s of
        None \<Rightarrow> Blocks
      | Some s0 \<Rightarrow>
          (case unload_each (map fst (range_map (m_plugins s0))) s0 of
             Blocks \<Rightarrow> Blocks
           | Panics s1 \<Rightarrow> Panics (Unlock s1)
           | Returns r s1 \<Rightarrow>
               (case LoadPlugins env ''./plugins'' s1 of
                  Blocks \<Rightarrow> Blocks
                | Panics s2 \<Rightarrow> Panics (Unlock s2)
                | Returns r2 s2 \<Rightarrow> Returns r2 (Unlock s2))))"

subsection \<open>Reading the registry\<close>

definition GetPlugin :: "string \<Rightarrow> state \<Rightarrow> (plugin option \<times> state) option" where
  "GetPlugin name s =
     (case RLock s of None \<Rightarrow> None | Some s0 \<Rightarrow> Some (map_of (m_plugins s0) name, RUnlock s0))"

text \<open>
  \<^verbatim>\<open>GetAllPlugins\<close> makes a map, copies every entry of the registry into it in a
  \<^verbatim>\<open>range\<close> loop and returns it.
\<close>

fun copy_entries :: "(string \<times> plugin) list \<Rightarrow> mapref \<Rightarrow> state \<Rightarrow> state" where
  "copy_entries [] r s = s"
| "copy_entries ((k, v) # rest) r s = copy_entries rest r (map_assign r k v s)"

definition GetAllPlugins :: "state \<Rightarrow> (mapref \<times> state) option" where
  "GetAllPlugins s =
     (case RLock s of
        None \<Rightarrow> None
      | Some s0 \<Rightarrow>
          (case make_map s0 of
             (r, s1) \<Rightarrow> Some (r, RUnlock (copy_entries (range_map (m_plugins s1)) r s1))))"

text \<open>
  The earlier Manager that manager.go also holds returns \<^verbatim>\<open>m.plugins\<close> itself.
\<close>

definition GetAllPlugins_v1 :: "state \<Rightarrow> mapref \<times> state" where
  "GetAllPlugins_v1 s = (MgrPlugins, s)"

section \<open>Reading a run\<close>

text \<open>
  The events of a run are the new end of the trace. The calls below the Manager (file
  system, archive, toolchain, dynamic loader) are the low events: no lock operation and
  no call of a plugin's \<^verbatim>\<open>Initialize\<close>, \<^verbatim>\<open>Shutdown\<close> or \<^verbatim>\<open>RegisterRoutes\<close>.
\<close>

definition new_events :: "state \<Rightarrow> state \<Rightarrow> event list" where
  "new_events s s' = drop (length (trace s)) (trace s')"

fun is_lock_event :: "event \<Rightarrow> bool" where
  "is_lock_event ELock = True"
| "is_lock_event EUnlock = True"
| "is_lock_event ERLock = True"
| "is_lock_event ERUnlock = True"
| "is_lock_event e = False"

fun is_low :: "event \<Rightarrow> bool" where
  "is_low ELock = False"
| "is_low EUnlock = False"
| "is_low ERLock = False"
| "is_low ERUnlock = False"
| "is_low (EInitialize i) = False"
| "is_low (EShutdown i) = False"
| "is_low (ERegisterRoutes n i) = False"
| "is_low e = True"

text \<open>
  \<open>low_step s s'\<close>: from \<open>s\<close> to \<open>s'\<close> only low events happened, and nothing of the
  Manager but the loader's table of open modules changed.
\<close>

definition low_step :: "state \<Rightarrow> state \<Rightarrow> bool" where
  "low_step s s' =
     ((\<exists>evs. trace s' = trace s @ evs \<and> (\<forall>e \<in> set evs. is_low e)) \<and>
      m_plugins s' = m_plugins s \<and> m_pluginPaths s' = m_pluginPaths s \<and>
      m_deps s' = m_deps s \<and> m_router s' = m_router s \<and>
      mu_writer s' = mu_writer s \<and> mu_readers s' = mu_readers s \<and>
      heap s' = heap s \<and> next_ref s' = next_ref s \<and> next_obj s \<le> next_obj s' \<and>
      l_pluginDir (m_loader s') = l_pluginDir (m_loader s) \<and>
      l_buildDir (m_loader s') = l_buildDir (m_loader s) \<and>
      l_extractor (m_loader s') = l_extractor (m_loader s) \<and>
      l_compiler (m_loader s') = l_compiler (m_loader s))"

text \<open>
  \<open>run_step P s s'\<close>: from \<open>s\<close> to \<open>s'\<close> events were added, all of them in the
  class \<open>P\<close>, and the lock is as it was. The load events are the low events and the
  calls of \<^verbatim>\<open>Initialize\<close> and \<^verbatim>\<open>RegisterRoutes\<close>. \<open>held_throughout evs\<close>: the events
  of one call start with \<^verbatim>\<open>Lock\<close>, end with \<^verbatim>\<open>Unlock\<close>, and have no lock operation in
  between.
\<close>

fun is_shutdown :: "event \<Rightarrow> bool" where
  "is_shutdown (EShutdown i) = True"
| "is_shutdown e = False"

fun is_load_event :: "event \<Rightarrow> bool" where
  "is_load_event ELock = False"
| "is_load_event EUnlock = False"
| "is_load_event ERLock = False"
| "is_load_event ERUnlock = False"
| "is_load_event (EShutdown i) = False"
| "is_load_event e = True"

definition run_step :: "(event \<Rightarrow> bool) \<Rightarrow> state \<Rightarrow> state \<Rightarrow> bool" where
  "run_step P s s' =
     ((\<exists>evs. trace s' = trace s @ evs \<and> (\<forall>e \<in> set evs. P e)) \<and>
      mu_writer s' = mu_writer s \<and> mu_readers s' = mu_readers s)"

definition held_throughout :: "event list \<Rightarrow> bool" where
  "held_throughout evs =
     (case evs of
        [] \<Rightarrow> False
      | e # rest \<Rightarrow>
          e = ELock \<and> rest \<noteq> [] \<and> last rest = EUnlock \<and>
          (\<forall>e' \<in> set (butlast rest). \<not> is_lock_event e'))"

text \<open>
  What a call of a Manager method did: the state it left (when it did not block), its
  events, and, when it returned, its result with the file tree and the registry.
\<close>

fun final_state :: "run \<Rightarrow> state option" where
  "final_state Blocks = None"
| "final_state (Panics s') = Some s'"
| "final_state (Returns r s') = Some s'"

definition run_events :: "state \<Rightarrow> run \<Rightarrow> event list option" where
  "run_events s run = map_option (new_events s) (final_state run)"

fun run_outcome :: "run \<Rightarrow> (error option \<times> fnode \<times> (string \<times> plugin) list) option" where
  "run_outcome (Returns r s') = Some (r, fs s', m_plugins s')"
| "run_outcome run = None"

text \<open>
  The registry and the table of paths have the same names, and every registered
  object was constructed before: true of a new Manager and kept by every method.
\<close>

definition registry_ok :: "state \<Rightarrow> bool" where
  "registry_ok s =
     ((\<forall>k. (map_of (m_plugins s) k = None) = (map_of (m_pluginPaths s) k = None)) \<and>
      (\<forall>k p. map_of (m_plugins s) k = Some p \<longrightarrow> obj p < next_obj s))"

section \<open>Example worlds\<close>

text \<open>
  A Linux host on which no system call fails. Archives hold a \<open>main.go\<close> and a data
  directory; the build leaves an output where the toolchain resolves \<^verbatim>\<open>-o\<close>; the symbol
  dump fails (\<^verbatim>\<open>go tool objdump\<close> has no flag \<^verbatim>\<open>-t\<close>); a module's constructor returns a
  plugin that calls itself \<open>demo\<close>. Strings of the examples are ASCII. The other
  environments differ from it in one field.
\<close>

definition env_linux :: env where
  "env_linux =
     \<lparr>goos = ''linux'', goarch = ''amd64'', unicode_lower = (\<lambda>s. s),
      faults = (\<lambda>tr e. False), dir_size = 4096,
      zip_files = (\<lambda>p. [ZEntry ''main.go'' False 100, ZEntry ''data/'' True 0,
                         ZEntry ''data/x.txt'' False 5]),
      go_mod_tidy = (\<lambda>d. True), go_build = (\<lambda>d out. BuildOutput 1000),
      objdump = (\<lambda>p. None),
      dlopen = (\<lambda>p. Returns_plugin ''demo'' ''1.0.0'' True True)\<rparr>"

definition env_windows :: env where
  "env_windows = env_linux\<lparr>goos := ''windows''\<rparr>"

text \<open>A host whose archives hold an entry that climbs out of the plugin directory.\<close>

definition env_traversal :: env where
  "env_traversal =
     env_linux\<lparr>zip_files := (\<lambda>p. [ZEntry ''main.go'' False 100, ZEntry ''../../evil.go'' False 7])\<rparr>"

text \<open>
  A host on which the compiled artifact of \<open>demo\<close> cannot be removed (\<^verbatim>\<open>os.Remove\<close> fails and
  the code ignores its error).
\<close>

definition env_stale :: env where
  "env_stale = env_linux\<lparr>faults := (\<lambda>tr e. e = ERemove ''plugins/.build/demo.so'')\<rparr>"

text \<open>
  The working directory of the examples: the plugin \<open>demo\<close> with its sources and an
  artifact built after them, an uploaded archive and an empty one.
\<close>

definition demo_tree :: fnode where
  "demo_tree =
     Dir 0
       [(''plugins'',
         Dir 0
           [(''demo'',
             Dir 1
               [(''main.go'', File 100 2),
                (''plugin.json'', File 170 3),
                (''go.mod'', File 104 4)]),
            (''.build'', Dir 5 [(''demo.so'', File 1000 6)])]),
        (''temp'', Dir 7 [(''up.zip'', File 2048 8), (''empty.zip'', File 0 9)])]"

text \<open>A new Manager there, with dependencies and router set.\<close>

definition s_fresh :: state where
  "s_fresh = (SetRouter (SetDependencies (NewManager demo_tree)))\<lparr>clock := 10\<rparr>"

text \<open>The Manager after \<^verbatim>\<open>LoadPlugin("demo")\<close>: the artifact is current, so it is loaded as it is.\<close>

definition load_events :: "event list" where
  "load_events =
     [ELock, EStat ''plugins/demo'', EStat ''plugins/.build/demo.so'', EWalk ''plugins/demo'',
      EPluginOpen ''plugins/.build/demo.so'', ELookup ''plugins/.build/demo.so'',
      ENewPlugin ''plugins/.build/demo.so'', EInitialize 0, ERegisterRoutes ''demo'' 0, EUnlock]"

definition s_demo :: state where
  "s_demo =
     \<lparr>fs = demo_tree, clock = 10, trace = load_events, next_obj = 1,
      m_plugins = [(''demo'', Plugin 0 ''demo'' ''1.0.0'' True True)],
      m_pluginPaths = [(''demo'', ''demo'')],
      m_loader =
        \<lparr>l_loadedPlugins = [(''demo'', ''plugins/.build/demo.so'')],
         l_pluginDir = ''./plugins'', l_buildDir = ''plugins/.build'',
         l_extractor = \<lparr>e_basePluginDir = ''./plugins''\<rparr>,
         l_compiler = \<lparr>c_buildDir = ''plugins/.build'', c_goPath = ''go''\<rparr>\<rparr>,
      m_deps = True, m_router = True, mu_writer = False, mu_readers = 0,
      heap = (\<lambda>a. None), next_ref = 0\<rparr>"


section \<open>Properties\<close>

subsection \<open>Calls below the Manager are low steps\<close>

text \<open>
  Each rule extends a chain: if \<open>s1\<close> is reached from \<open>s\<close> by low steps, so is the
  state after one more call. The Extractor, the Compiler and the Loader never touch the
  registry or the lock.
\<close>

named_theorems low

lemma low_step_refl [low]: "low_step s s"
  by (simp add: low_step_def)

lemma low_step_trans: "low_step s s1 \<Longrightarrow> low_step s1 s2 \<Longrightarrow> low_step s s2"
  unfolding low_step_def by (elim conjE exE) (simp, fastforce)

lemma low_emit [low]: "is_low e \<Longrightarrow> low_step s s1 \<Longrightarrow> low_step s (emit e s1)"
  by (erule low_step_trans) (simp add: low_step_def emit_def)

lemma low_fs_clock [low]: "low_step s s1 \<Longrightarrow> low_step s (s1\<lparr>fs := t, clock := c\<rparr>)"
  by (erule low_step_trans) (simp add: low_step_def)

lemma low_fs [low]: "low_step s s1 \<Longrightarrow> low_step s (s1\<lparr>fs := t\<rparr>)"
  by (erule low_step_trans) (simp add: low_step_def)

lemma os_Stat_low [low]: "low_step s s1 \<Longrightarrow> low_step s (snd (os_Stat env p s1))"
  by (simp add: os_Stat_def low)

lemma os_RemoveAll_low [low]: "low_step s s1 \<Longrightarrow> low_step s (snd (os_RemoveAll env p s1))"
  by (simp add: os_RemoveAll_def low)

lemma os_Remove_low [low]: "low_step s s1 \<Longrightarrow> low_step s (snd (os_Remove env p s1))"
  by (simp add: os_Remove_def low split: option.splits fnode.splits list.splits)

lemma os_MkdirAll_low [low]: "low_step s s1 \<Longrightarrow> low_step s (snd (os_MkdirAll env p s1))"
  by (simp add: os_MkdirAll_def low split: option.splits)

lemma os_OpenFile_low [low]: "low_step s s1 \<Longrightarrow> low_step s (snd (os_OpenFile env p s1))"
  by (simp add: os_OpenFile_def low split: option.splits)

lemma io_Copy_low [low]: "low_step s s1 \<Longrightarrow> low_step s (snd (io_Copy env p sz s1))"
  by (simp add: io_Copy_def low split: option.splits)

lemma os_WriteFile_low [low]: "low_step s s1 \<Longrightarrow> low_step s (snd (os_WriteFile env p c s1))"
  by (simp add: os_WriteFile_def low split: option.splits)

lemma zip_OpenReader_low [low]: "low_step s s1 \<Longrightarrow> low_step s (snd (zip_OpenReader env p s1))"
  by (simp add: zip_OpenReader_def low)

lemma Walk_low [low]: "low_step s s1 \<Longrightarrow> low_step s (snd (Walk env fn root a s1))"
  by (simp add: Walk_def Let_def low)

lemma extractFile_low [low]: "low_step s s1 \<Longrightarrow> low_step s (snd (extractFile env f d s1))"
  unfolding extractFile_def Let_def
  by (simp split: option.splits add: low split_beta)

lemma extract_files_low [low]: "low_step s s1 \<Longrightarrow> low_step s (snd (extract_files env files d s1))"
proof (induction files arbitrary: s1)
  case Nil
  then show ?case by simp
next
  case (Cons f files)
  show ?case
  proof (cases "fst (extractFile env f d s1)")
    case None
    then show ?thesis
      using Cons.IH [OF extractFile_low [OF Cons.prems, of env f d]]
      by (simp add: split_beta)
  next
    case (Some e)
    then show ?thesis
      using extractFile_low [OF Cons.prems, of env f d]
      by (simp add: split_beta)
  qed
qed

lemma ExtractZipPlugin_low [low]: "low_step s s1 \<Longrightarrow> low_step s (snd (ExtractZipPlugin env e z n s1))"
  unfolding ExtractZipPlugin_def Let_def
  by (simp split: option.splits sum.splits add: low split_beta)


lemma generateManifest_low [low]: "low_step s s1 \<Longrightarrow> low_step s (snd (generateManifest env d s1))"
  by (simp add: generateManifest_def low)

lemma ValidatePluginStructure_low [low]:
  "low_step s s1 \<Longrightarrow> low_step s (snd (ValidatePluginStructure env d s1))"
  unfolding ValidatePluginStructure_def
  by (simp split: stat_result.splits add: low split_beta)

lemma createGoMod_low [low]: "low_step s s1 \<Longrightarrow> low_step s (snd (createGoMod env d n s1))"
  by (simp add: createGoMod_def low)

lemma exec_go_mod_tidy_low [low]: "low_step s s1 \<Longrightarrow> low_step s (snd (exec_go_mod_tidy env d s1))"
  by (simp add: exec_go_mod_tidy_def low)

lemma exec_go_build_low [low]: "low_step s s1 \<Longrightarrow> low_step s (snd (exec_go_build env d out s1))"
  by (simp add: exec_go_build_def low split: build_outcome.splits option.splits)

lemma ensureGoMod_low [low]: "low_step s s1 \<Longrightarrow> low_step s (snd (ensureGoMod env d n s1))"
  unfolding ensureGoMod_def
  by (simp split: option.splits bool.splits add: low split_beta)

lemma CompilePlugin_low [low]: "low_step s s1 \<Longrightarrow> low_step s (snd (CompilePlugin env c d n s1))"
  unfolding CompilePlugin_def Let_def
  by (simp split: option.splits bool.splits stat_result.splits add: low split_beta)

lemma needsRecompilation_low [low]:
  "low_step s s1 \<Longrightarrow> low_step s (snd (needsRecompilation env d t s1))"
  by (simp add: needsRecompilation_def low)

lemma compile_now_low [low]: "low_step s s1 \<Longrightarrow> low_step s (snd (compile_now env c d n s1))"
  unfolding compile_now_def
  by (simp split: sum.splits add: low split_beta)

lemma CompileWithCache_low [low]:
  "low_step s s1 \<Longrightarrow> low_step s (snd (CompileWithCache env c d n s1))"
  unfolding CompileWithCache_def Let_def
  by (simp split: option.splits stat_result.splits add: low split_beta)

lemma ValidateCompilation_low [low]:
  "low_step s s1 \<Longrightarrow> low_step s (snd (ValidateCompilation env p s1))"
  unfolding ValidateCompilation_def
  by (simp split: option.splits add: low)

lemma plugin_Open_low [low]: "low_step s s1 \<Longrightarrow> low_step s (snd (plugin_Open env p s1))"
  by (simp add: plugin_Open_def low)

lemma plugin_Lookup_low [low]: "low_step s s1 \<Longrightarrow> low_step s (snd (plugin_Lookup env p s1))"
  by (simp add: plugin_Lookup_def low)

lemma low_next_obj [low]: "low_step s s1 \<Longrightarrow> low_step s (s1\<lparr>next_obj := Suc (next_obj s1)\<rparr>)"
  by (erule low_step_trans) (simp add: low_step_def)

lemma newPluginFunc_low [low]: "low_step s s1 \<Longrightarrow> low_step s (snd (newPluginFunc env p s1))"
  by (simp add: newPluginFunc_def low split: module.splits)

lemma store_handle_low [low]: "low_step s s1 \<Longrightarrow> low_step s (store_handle n p s1)"
  by (erule low_step_trans) (simp add: low_step_def store_handle_def)

lemma LoadPluginFromFile_low [low]:
  "low_step s s1 \<Longrightarrow> low_step s (snd (LoadPluginFromFile env p s1))"
  unfolding LoadPluginFromFile_def
  by (simp split: option.splits stat_result.splits bool.splits add: low split_beta)

lemma loadCompiledPlugin_low [low]:
  "low_step s s1 \<Longrightarrow> low_step s (snd (loadCompiledPlugin env p s1))"
  unfolding loadCompiledPlugin_def
  by (simp split: option.splits bool.splits add: low split_beta)

lemma LoadPluginFromDirectory_low [low]:
  "low_step s s1 \<Longrightarrow> low_step s (snd (LoadPluginFromDirectory env n s1))"
  unfolding LoadPluginFromDirectory_def Let_def
  by (simp split: option.splits stat_result.splits add: low split_beta)

lemma InstallFromZip_low [low]:
  "low_step s s1 \<Longrightarrow> low_step s (snd (InstallFromZip env z n s1))"
  unfolding InstallFromZip_def
  by (simp split: option.splits sum.splits add: low split_beta)

lemma os_ReadDir_low [low]: "low_step s s1 \<Longrightarrow> low_step s (snd (os_ReadDir env p s1))"
  by (simp add: os_ReadDir_def low)

lemma filepath_Glob_so_low [low]: "low_step s s1 \<Longrightarrow> low_step s (snd (filepath_Glob_so env p s1))"
  by (simp add: filepath_Glob_so_def low)

lemma load_dirs_low [low]:
  "low_step s s1 \<Longrightarrow> low_step s (snd (load_dirs env entries found errs s1))"
proof (induction entries arbitrary: s1 found errs)
  case Nil
  then show ?case by simp
next
  case (Cons x entries)
  obtain name isdir where x: "x = (name, isdir)" by (cases x)
  have step: "low_step s (snd (LoadPluginFromDirectory env name s1))"
    by (rule LoadPluginFromDirectory_low [OF Cons.prems])
  show ?case
    unfolding x
    by (simp add: split_beta Cons.IH [OF Cons.prems] Cons.IH [OF step] step split: sum.splits)
qed

lemma load_so_files_low [low]:
  "low_step s s1 \<Longrightarrow> low_step s (snd (load_so_files env files found errs s1))"
proof (induction files arbitrary: s1 found errs)
  case Nil
  then show ?case by simp
next
  case (Cons x files)
  have step: "low_step s (snd (loadCompiledPlugin env x s1))"
    by (rule loadCompiledPlugin_low [OF Cons.prems])
  show ?case
    by (simp add: split_beta Cons.IH [OF Cons.prems] Cons.IH [OF step] split: sum.splits)
qed

lemma LoadAllPlugins_low [low]: "low_step s s1 \<Longrightarrow> low_step s (snd (LoadAllPlugins env s1))"
  unfolding LoadAllPlugins_def
  by (simp split: option.splits sum.splits bool.splits add: low split_beta)

lemma ValidateZipPlugin_low [low]:
  "low_step s s1 \<Longrightarrow> low_step s (snd (ValidateZipPlugin env z s1))"
  unfolding ValidateZipPlugin_def
  by (simp split: stat_result.splits add: low split_beta)

lemma low_loaded [low]:
  "low_step s s1 \<Longrightarrow> low_step s (s1\<lparr>m_loader := (m_loader s1)\<lparr>l_loadedPlugins := x\<rparr>\<rparr>)"
  by (erule low_step_trans) (simp add: low_step_def)

lemma Loader_UninstallPlugin_low [low]:
  "low_step s s1 \<Longrightarrow> low_step s (snd (Loader_UninstallPlugin env n s1))"
  unfolding Loader_UninstallPlugin_def Let_def
  by (simp split: option.splits add: low split_beta)

lemma RecompilePlugin_low [low]:
  "low_step s s1 \<Longrightarrow> low_step s (snd (RecompilePlugin env n s1))"
  unfolding RecompilePlugin_def Let_def
  by (simp split: sum.splits add: low split_beta)

subsection \<open>Running the model on the example worlds\<close>

text \<open>
  The rules that evaluate a run: the definitions of the calls, of the example worlds
  and of the string functions. Case expressions are evaluated scrutinee first
  (\<open>prod.case_cong_weak\<close>, \<open>let_weak_cong\<close>).
\<close>

lemmas prim_defs = emit_def os_Stat_def os_RemoveAll_def os_Remove_def os_MkdirAll_def os_OpenFile_def
  io_Copy_def os_WriteFile_def zip_OpenReader_def Walk_def info_of_def os_ReadDir_def filepath_Glob_so_def
  exec_go_mod_tidy_def exec_go_build_def plugin_Open_def plugin_Lookup_def newPluginFunc_def
  plugin_Initialize_def plugin_Shutdown_def store_handle_def Lock_def Unlock_def RLock_def RUnlock_def

lemmas comp_defs = extractFile_def ExtractZipPlugin_def generateManifest_def ValidatePluginStructure_def
  createGoMod_def ensureGoMod_def CompilePlugin_def newer_source_def needsRecompilation_def
  compile_now_def CompileWithCache_def ValidateCompilation_def isPluginSupported_def
  LoadPluginFromFile_def loadCompiledPlugin_def LoadPluginFromDirectory_def InstallFromZip_def
  LoadAllPlugins_def ValidateZipPlugin_def Loader_UninstallPlugin_def RecompilePlugin_def
  registerPluginRoutes_def store_plugin_def InstallPluginFromZip_body_def InstallPluginFromZip_def
  LoadPlugins_body_def LoadPlugins_def LoadPlugin_body_def LoadPlugin_def UnloadPlugin_body_def
  UnloadPlugin_def UninstallPlugin_def ReloadPlugin_def locked_def finish_def

lemmas world_defs = env_linux_def s_fresh_def NewManager_def NewLoader_def NewExtractor_def NewCompiler_def
  SetDependencies_def SetRouter_def s_demo_def demo_tree_def load_events_def

lemmas str_defs = HasSuffix_def HasPrefix_def TrimSuffix_def ToLower_def is_ascii_def lower_char_def rooted_def
  resolve_in_def
  path_elems_def Clean_def Join_def Dir_of_def Base_def fskey_def getPluginNameFromPath_def
  manifest_text_def go_mod_text_def suffix_to_prefix

text \<open>\<open>s_demo\<close> is the state that loading \<open>demo\<close> on the new Manager leaves.\<close>

lemma load_demo: "LoadPlugin env_linux ''demo'' s_fresh = Returns None s_demo"
  by (simp add: prim_defs comp_defs world_defs str_defs Let_def cong: prod.case_cong_weak let_weak_cong)

subsection \<open>The body of a Manager method\<close>

named_theorems run

lemma low_not_lock: "is_low e \<Longrightarrow> \<not> is_lock_event e"
  by (cases e) simp_all

lemma low_is_load: "is_low e \<Longrightarrow> is_load_event e"
  by (cases e) simp_all

lemma load_not_lock: "is_load_event e \<Longrightarrow> \<not> is_lock_event e"
  by (cases e) simp_all

lemma load_not_shutdown: "is_load_event e \<Longrightarrow> \<not> is_shutdown e"
  by (cases e) simp_all

lemma run_step_refl [run]: "run_step P s s"
  by (simp add: run_step_def)

lemma run_step_trans: "run_step P s s1 \<Longrightarrow> run_step P s1 s2 \<Longrightarrow> run_step P s s2"
  unfolding run_step_def by (elim conjE exE) (simp, fastforce)

lemma run_step_mono: "run_step P s s' \<Longrightarrow> (\<And>e. P e \<Longrightarrow> Q e) \<Longrightarrow> run_step Q s s'"
  unfolding run_step_def by blast

lemma low_is_run:
  assumes l: "low_step s s'" and P: "\<forall>e. is_low e \<longrightarrow> P e"
  shows "run_step P s s'"
proof -
  from l obtain evs where evs: "trace s' = trace s @ evs" "\<forall>e \<in> set evs. is_low e"
    unfolding low_step_def by blast
  from l have mu: "mu_writer s' = mu_writer s" "mu_readers s' = mu_readers s"
    unfolding low_step_def by simp_all
  from evs(2) P have "\<forall>e \<in> set evs. P e" by blast
  with evs(1) mu show ?thesis unfolding run_step_def by blast
qed

lemma run_low: "\<forall>e. is_low e \<longrightarrow> P e \<Longrightarrow> run_step P s s1 \<Longrightarrow> low_step s1 s2 \<Longrightarrow> run_step P s s2"
  by (blast intro: run_step_trans low_is_run)

lemma run_emit [run]: "P e \<Longrightarrow> run_step P s s1 \<Longrightarrow> run_step P s (emit e s1)"
  by (erule run_step_trans) (simp add: run_step_def emit_def)

lemma run_step_prefix: "run_step P s s' \<Longrightarrow> prefix (trace s) (trace s')"
  by (auto simp: run_step_def)

lemma run_registry [run]:
  "run_step P s s1 \<Longrightarrow> run_step P s (s1\<lparr>m_plugins := a, m_pluginPaths := b\<rparr>)"
  by (erule run_step_trans) (simp add: run_step_def)

lemma plugin_Initialize_run [run]:
  "P (EInitialize (obj inst)) \<Longrightarrow> run_step P s s1 \<Longrightarrow> run_step P s (snd (plugin_Initialize inst s1))"
  by (simp add: plugin_Initialize_def run)

lemma plugin_Shutdown_run [run]:
  "P (EShutdown (obj inst)) \<Longrightarrow> run_step P s s1 \<Longrightarrow> run_step P s (snd (plugin_Shutdown inst s1))"
  by (simp add: plugin_Shutdown_def run)

lemma registerPluginRoutes_run [run]:
  "P (ERegisterRoutes (ToLower (unicode_lower env) n) (obj inst)) \<Longrightarrow> run_step P s s1 \<Longrightarrow>
   run_step P s (registerPluginRoutes env n inst s1)"
  by (simp add: registerPluginRoutes_def run)

lemma store_plugin_run [run]:
  "P (ERegisterRoutes (ToLower (unicode_lower env) (info_name inst)) (obj inst)) \<Longrightarrow> run_step P s s1 \<Longrightarrow>
   run_step P s (store_plugin env inst n s1)"
  by (simp add: store_plugin_def Let_def run)

lemma InstallFromZip_run [run]:
  "\<forall>e. is_low e \<longrightarrow> P e \<Longrightarrow> run_step P s s1 \<Longrightarrow> run_step P s (snd (InstallFromZip env z n s1))"
  by (erule (1) run_low) (rule InstallFromZip_low [OF low_step_refl])

lemma LoadPluginFromDirectory_run [run]:
  "\<forall>e. is_low e \<longrightarrow> P e \<Longrightarrow> run_step P s s1 \<Longrightarrow>
   run_step P s (snd (LoadPluginFromDirectory env n s1))"
  by (erule (1) run_low) (rule LoadPluginFromDirectory_low [OF low_step_refl])

lemma Loader_UninstallPlugin_run [run]:
  "\<forall>e. is_low e \<longrightarrow> P e \<Longrightarrow> run_step P s s1 \<Longrightarrow>
   run_step P s (snd (Loader_UninstallPlugin env n s1))"
  by (erule (1) run_low) (rule Loader_UninstallPlugin_low [OF low_step_refl])

lemma ValidateZipPlugin_run [run]:
  "\<forall>e. is_low e \<longrightarrow> P e \<Longrightarrow> run_step P s s1 \<Longrightarrow>
   run_step P s (snd (ValidateZipPlugin env z s1))"
  by (erule (1) run_low) (rule ValidateZipPlugin_low [OF low_step_refl])

lemma LoadAllPlugins_run [run]:
  "\<forall>e. is_low e \<longrightarrow> P e \<Longrightarrow> run_step P s s1 \<Longrightarrow> run_step P s (snd (LoadAllPlugins env s1))"
  by (erule (1) run_low) (rule LoadAllPlugins_low [OF low_step_refl])

lemma RecompilePlugin_run [run]:
  "\<forall>e. is_low e \<longrightarrow> P e \<Longrightarrow> run_step P s s1 \<Longrightarrow> run_step P s (snd (RecompilePlugin env n s1))"
  by (erule (1) run_low) (rule RecompilePlugin_low [OF low_step_refl])

subsection \<open>Pre-flight validation of the archive\<close>

lemma ValidateZipPlugin_verdict:
  "\<not> IsValid (fst (fst (ValidateZipPlugin env zipPath s))) \<longleftrightarrow>
     \<not> HasSuffix (ToLower (unicode_lower env) zipPath) ''.zip'' \<or>
     (\<forall>i. fst (os_Stat env zipPath s) \<noteq> Info i) \<or>
     (\<exists>i. fst (os_Stat env zipPath s) = Info i \<and> (100 * 1024 * 1024 < Size i \<or> Size i = 0))"
  by (auto simp: ValidateZipPlugin_def split_beta split: stat_result.splits)

lemma ValidateZipPlugin_err: "snd (fst (ValidateZipPlugin env zipPath s)) = None"
  by (auto simp: ValidateZipPlugin_def split_beta split: stat_result.splits)

lemma ValidateZipPlugin_state:
  "snd (ValidateZipPlugin env zipPath s) =
     (if HasSuffix (ToLower (unicode_lower env) zipPath) ''.zip'' then emit (EStat zipPath) s else s)"
  by (auto simp: ValidateZipPlugin_def os_Stat_def split_beta split: stat_result.splits)

lemma Install_body_after_validation:
  "run_step is_load_event (snd (ValidateZipPlugin env z s0)) (snd (InstallPluginFromZip_body env z n s0))"
  unfolding InstallPluginFromZip_body_def
  by (simp add: split_beta ValidateZipPlugin_err run low_is_load split: option.splits sum.splits)

lemma Lock_Some: "Lock s = Some s0 \<Longrightarrow> s0 = emit ELock (s\<lparr>mu_writer := True\<rparr>)"
  by (auto simp: Lock_def split: if_splits)

lemma final_state_finish: "final_state (finish b) = Some (Unlock (snd b))"
  by (simp add: finish_def split_beta)

text \<open>
  C7, amended. \<^verbatim>\<open>ValidateZipPlugin\<close> marks the archive invalid exactly when the path,
  lowered by \<^verbatim>\<open>strings.ToLower\<close>, does not end in \<open>.zip\<close>, or \<^verbatim>\<open>os.Stat\<close> of the path
  fails, or the size is above \<open>100 * 1024 * 1024\<close>, or the size is zero; a \<open>.zip\<close>
  file of 99 MB is valid. \<^verbatim>\<open>InstallPluginFromZip\<close>, on a free lock, does not block, and
  whether it returns or panics, its first events after \<^verbatim>\<open>Lock\<close> are those of the
  validation (at most one \<^verbatim>\<open>Stat\<close>, no mutation). When the archive is invalid the call
  returns the validation errors, the only events are \<^verbatim>\<open>Lock\<close>, the \<^verbatim>\<open>Stat\<close> and
  \<^verbatim>\<open>Unlock\<close> (no extraction), and the file tree and the registry are as before. The
  claim as stated leaves out the failed \<^verbatim>\<open>Stat\<close>: \<open>ValidateZipPlugin_missing_file\<close>
  is an archive path that ends in \<open>.zip\<close>, names no file (so no size is too large or
  zero) and is marked invalid.
\<close>

theorem InstallPluginFromZip_preflight:
  assumes "Lock s = Some s0"
  shows "(\<not> IsValid (fst (fst (ValidateZipPlugin env zipPath s0))) \<longleftrightarrow>
            \<not> HasSuffix (ToLower (unicode_lower env) zipPath) ''.zip'' \<or>
            (\<forall>i. fst (os_Stat env zipPath s0) \<noteq> Info i) \<or>
            (\<exists>i. fst (os_Stat env zipPath s0) = Info i \<and>
                 (100 * 1024 * 1024 < Size i \<or> Size i = 0))) \<and>
         (\<forall>i. HasSuffix (ToLower (unicode_lower env) zipPath) ''.zip'' \<and>
              fst (os_Stat env zipPath s0) = Info i \<and> Size i = 99 * 1024 * 1024 \<longrightarrow>
              IsValid (fst (fst (ValidateZipPlugin env zipPath s0)))) \<and>
         (\<exists>s'. final_state (InstallPluginFromZip env zipPath pluginName s) = Some s' \<and>
            prefix (ELock # (if HasSuffix (ToLower (unicode_lower env) zipPath) ''.zip''
                             then [EStat zipPath] else []))
                   (new_events s s') \<and>
            (\<not> IsValid (fst (fst (ValidateZipPlugin env zipPath s0))) \<longrightarrow>
               InstallPluginFromZip env zipPath pluginName s =
                 Returns (Some (InvalidPlugin (Errors (fst (fst (ValidateZipPlugin env zipPath s0)))))) s' \<and>
               new_events s s' =
                 ELock # (if HasSuffix (ToLower (unicode_lower env) zipPath) ''.zip''
                          then [EStat zipPath] else []) @ [EUnlock] \<and>
               fs s' = fs s \<and> m_plugins s' = m_plugins s))"
proof -
  let ?z = "HasSuffix (ToLower (unicode_lower env) zipPath) ''.zip''"
  have verdict: "(\<not> IsValid (fst (fst (ValidateZipPlugin env zipPath s0)))) =
    (\<not> ?z \<or>
     (\<forall>i. fst (os_Stat env zipPath s0) \<noteq> Info i) \<or>
     (\<exists>i. fst (os_Stat env zipPath s0) = Info i \<and> (100 * 1024 * 1024 < Size i \<or> Size i = 0)))"
    by (rule ValidateZipPlugin_verdict)
  have mb99: "\<forall>i. ?z \<and> fst (os_Stat env zipPath s0) = Info i \<and>
              Size i = 99 * 1024 * 1024 \<longrightarrow>
              IsValid (fst (fst (ValidateZipPlugin env zipPath s0)))"
    using ValidateZipPlugin_verdict [of env zipPath s0] by auto
  let ?v = "fst (fst (ValidateZipPlugin env zipPath s0))"
  let ?s1 = "snd (ValidateZipPlugin env zipPath s0)"
  let ?b = "InstallPluginFromZip_body env zipPath pluginName s0"
  let ?pre = "ELock # (if ?z then [EStat zipPath] else [])"
  have s0: "s0 = emit ELock (s\<lparr>mu_writer := True\<rparr>)" by (rule Lock_Some [OF assms])
  have call: "InstallPluginFromZip env zipPath pluginName s = finish ?b"
    using assms by (simp add: InstallPluginFromZip_def locked_def)
  have fin: "final_state (InstallPluginFromZip env zipPath pluginName s) = Some (Unlock (snd ?b))"
    unfolding call by (rule final_state_finish)
  have tr1: "trace ?s1 = trace s @ ?pre"
    by (simp add: ValidateZipPlugin_state s0 emit_def)
  from Install_body_after_validation [of env zipPath s0 pluginName]
  obtain evs where evs: "trace (snd ?b) = trace ?s1 @ evs"
    by (auto simp: run_step_def)
  have pre: "prefix ?pre (new_events s (Unlock (snd ?b)))"
    using evs tr1 by (simp add: new_events_def Unlock_def emit_def)
  have inv: "\<not> IsValid ?v \<longrightarrow>
      InstallPluginFromZip env zipPath pluginName s =
        Returns (Some (InvalidPlugin (Errors ?v))) (Unlock (snd ?b)) \<and>
      new_events s (Unlock (snd ?b)) = ?pre @ [EUnlock] \<and>
      fs (Unlock (snd ?b)) = fs s \<and> m_plugins (Unlock (snd ?b)) = m_plugins s"
  proof
    assume nv: "\<not> IsValid ?v"
    then have b: "?b = (Some (InvalidPlugin (Errors ?v)), ?s1)"
      using ValidateZipPlugin_err [of env zipPath s0]
      by (simp add: InstallPluginFromZip_body_def split_beta split: option.splits)
    have r: "InstallPluginFromZip env zipPath pluginName s =
        Returns (Some (InvalidPlugin (Errors ?v))) (Unlock (snd ?b))"
      unfolding call by (simp add: b finish_def)
    have rest: "new_events s (Unlock (snd ?b)) = ?pre @ [EUnlock] \<and>
      fs (Unlock (snd ?b)) = fs s \<and> m_plugins (Unlock (snd ?b)) = m_plugins s"
      unfolding b using tr1
      by (simp add: new_events_def Unlock_def emit_def ValidateZipPlugin_state s0)
    from r rest show "InstallPluginFromZip env zipPath pluginName s =
        Returns (Some (InvalidPlugin (Errors ?v))) (Unlock (snd ?b)) \<and>
      new_events s (Unlock (snd ?b)) = ?pre @ [EUnlock] \<and>
      fs (Unlock (snd ?b)) = fs s \<and> m_plugins (Unlock (snd ?b)) = m_plugins s"
      by (rule conjI)
  qed
  have run: "\<exists>s'. final_state (InstallPluginFromZip env zipPath pluginName s) = Some s' \<and>
            prefix ?pre (new_events s s') \<and>
            (\<not> IsValid ?v \<longrightarrow>
               InstallPluginFromZip env zipPath pluginName s =
                 Returns (Some (InvalidPlugin (Errors ?v))) s' \<and>
               new_events s s' = ?pre @ [EUnlock] \<and>
               fs s' = fs s \<and> m_plugins s' = m_plugins s)"
    using fin pre inv by (intro exI [of _ "Unlock (snd ?b)"]) simp
  show ?thesis
    using verdict mb99 run by simp
qed

theorem InstallPluginFromZip_preflight_witness:
  "Lock s_demo = Some (emit ELock (s_demo\<lparr>mu_writer := True\<rparr>)) \<and>
   (\<exists>s'. InstallPluginFromZip env_linux ''temp/empty.zip'' ''other'' s_demo =
            Returns (Some (InvalidPlugin [''Plugin file is empty''])) s' \<and>
      new_events s_demo s' = [ELock, EStat ''temp/empty.zip'', EUnlock] \<and> fs s' = fs s_demo)"
proof -
  have h: "Lock s_demo = Some (emit ELock (s_demo\<lparr>mu_writer := True\<rparr>))"
    by (simp add: Lock_def s_demo_def)
  have z: "HasSuffix (ToLower (unicode_lower env_linux) ''temp/empty.zip'') ''.zip''"
    by (simp add: str_defs env_linux_def)
  have v: "fst (fst (ValidateZipPlugin env_linux ''temp/empty.zip'' (emit ELock (s_demo\<lparr>mu_writer := True\<rparr>)))) =
      \<lparr>IsValid = False, Errors = [''Plugin file is empty''], Warnings = []\<rparr>"
    by (simp add: ValidateZipPlugin_def prim_defs world_defs str_defs)
  show ?thesis
    using InstallPluginFromZip_preflight [OF h, of env_linux "''temp/empty.zip''" "''other''"] h
    by (simp add: v z) blast
qed

theorem ValidateZipPlugin_missing_file:
  "\<not> IsValid (fst (fst (ValidateZipPlugin env_linux ''temp/gone.zip'' s_demo))) \<and>
   HasSuffix (ToLower (unicode_lower env_linux) ''temp/gone.zip'') ''.zip'' \<and>
   fst (os_Stat env_linux ''temp/gone.zip'' s_demo) = NotExist"
  by (simp add: ValidateZipPlugin_def prim_defs world_defs str_defs)

subsection \<open>Installing a name that is registered\<close>




subsection \<open>Platform gate\<close>

text \<open>
  C8. On a host whose operating system is not linux, darwin or freebsd,
  \<^verbatim>\<open>LoadPluginFromFile\<close> returns the "not supported" error and leaves the state as it
  was: the trace is the same, so no \<^verbatim>\<open>plugin.Open\<close> and no file system call was made
  on the path or anything else.
\<close>

theorem LoadPluginFromFile_unsupported:
  "goos env \<notin> {''linux'', ''darwin'', ''freebsd''} \<Longrightarrow>
   LoadPluginFromFile env p s = (Some (PlatformUnsupported (goos env) (goarch env)), s) \<and>
   new_events s (snd (LoadPluginFromFile env p s)) = []"
  by (simp add: LoadPluginFromFile_def isPluginSupported_def new_events_def)

theorem LoadPluginFromFile_unsupported_witness:
  "goos env_windows \<notin> {''linux'', ''darwin'', ''freebsd''} \<and>
   LoadPluginFromFile env_windows ''plugins/.build/demo.so'' s_fresh
     = (Some (PlatformUnsupported ''windows'' ''amd64''), s_fresh) \<and>
   new_events s_fresh (snd (LoadPluginFromFile env_windows ''plugins/.build/demo.so'' s_fresh)) = []"
  using LoadPluginFromFile_unsupported [of env_windows "''plugins/.build/demo.so''" s_fresh]
  by (simp add: env_windows_def env_linux_def new_events_def)


subsection \<open>Hot reload\<close>

text \<open>
  C6. \<^verbatim>\<open>HotReload\<close> takes the Manager's lock and then calls \<^verbatim>\<open>UnloadPlugin\<close> (for
  each loaded plugin) and \<^verbatim>\<open>LoadPlugins\<close>, which take the same lock again. The lock
  is not reentrant, so the first of these calls never returns, whatever the registry
  holds: \<^verbatim>\<open>HotReload\<close> unloads nothing, reloads nothing and does not return.
\<close>

theorem HotReload_never_returns: "HotReload env s = Blocks"
proof (cases "Lock s")
  case None
  then show ?thesis by (simp add: HotReload_def)
next
  case (Some s0)
  then have held: "mu_writer s0"
    by (auto simp: Lock_def emit_def split: if_splits)
  then have inner: "Lock s0 = None" by (simp add: Lock_def)
  show ?thesis
  proof (cases "map fst (range_map (m_plugins s0))")
    case Nil
    then show ?thesis using Some inner by (simp add: HotReload_def LoadPlugins_def locked_def)
  next
    case (Cons n ns)
    then show ?thesis using Some inner by (simp add: HotReload_def UnloadPlugin_def locked_def)
  qed
qed

subsection \<open>The map that GetAllPlugins returns\<close>

lemma fold_update_map_of:
  "map_of (fold (\<lambda>(k, v). AList.update k v) es m) = map_of (rev es @ m)"
proof (induction es arbitrary: m)
  case Nil
  then show ?case by simp
next
  case (Cons e es)
  obtain k v where e: "e = (k, v)" by (cases e)
  show ?case
    by (simp add: e Cons.IH update_conv' map_add_def fun_eq_iff split: option.splits)
qed

lemma copy_entries_heap:
  "heap s a = Some m \<Longrightarrow>
   copy_entries es (HeapMap a) s = s\<lparr>heap := (heap s)(a \<mapsto> fold (\<lambda>(k, v). AList.update k v) es m)\<rparr>"
proof (induction es arbitrary: s m)
  case Nil
  then have "(heap s)(a \<mapsto> m) = heap s" by (simp add: fun_eq_iff)
  then show ?case by simp
next
  case (Cons e es)
  obtain k v where e: "e = (k, v)" by (cases e)
  let ?s1 = "s\<lparr>heap := (heap s)(a \<mapsto> AList.update k v m)\<rparr>"
  have s1: "map_assign (HeapMap a) k v s = ?s1"
    using Cons.prems by simp
  have h: "heap ?s1 a = Some (AList.update k v m)"
    by simp
  have "copy_entries (e # es) (HeapMap a) s = copy_entries es (HeapMap a) ?s1"
    by (simp add: e s1 del: map_assign.simps)
  also have "\<dots> = ?s1\<lparr>heap := (heap ?s1)(a \<mapsto> fold (\<lambda>(k, v). AList.update k v) es (AList.update k v m))\<rparr>"
    by (rule Cons.IH [OF h])
  also have "\<dots> = s\<lparr>heap := (heap s)(a \<mapsto> fold (\<lambda>(k, v). AList.update k v) (e # es) m)\<rparr>"
    by (simp add: e)
  finally show ?case .
qed

lemma range_map_copy: "map_of (fold (\<lambda>(k, v). AList.update k v) (range_map al) []) = map_of al"
proof -
  have "distinct (map fst (AList.clearjunk al))" by (rule distinct_clearjunk)
  moreover from this have "distinct (map fst (rev (AList.clearjunk al)))"
    by (simp add: rev_map [symmetric])
  ultimately have "map_of (rev (AList.clearjunk al)) = map_of (AList.clearjunk al)"
    by (subst map_of_inject_set) simp_all
  then show ?thesis
    by (simp add: fold_update_map_of range_map_def map_of_clearjunk)
qed

text \<open>
  A write through the reference that the earlier \<^verbatim>\<open>GetAllPlugins\<close> returns does
  change the registry; the model tells the two apart.
\<close>

lemma GetAllPlugins_v1_alias:
  "m_plugins (map_assign (fst (GetAllPlugins_v1 s)) k v (snd (GetAllPlugins_v1 s)))
     = AList.update k v (m_plugins s)"
  by (simp add: GetAllPlugins_v1_def)

text \<open>
  C10. When no writer holds the lock, \<^verbatim>\<open>GetAllPlugins\<close> returns a reference to a map
  allocated by this call (the next free address), whose keys and values are those of
  the registry at the call; the registry is the same after the call, an assignment or a
  deletion through the returned reference leaves it the same, and no other map of the
  heap is touched.
\<close>

theorem GetAllPlugins_fresh_copy:
  assumes "\<not> mu_writer s"
  shows "\<exists>s'. GetAllPlugins s = Some (HeapMap (next_ref s), s') \<and>
           next_ref s' = Suc (next_ref s) \<and>
           map_of (map_read (HeapMap (next_ref s)) s') = map_of (m_plugins s) \<and>
           m_plugins s' = m_plugins s \<and>
           (\<forall>k v. m_plugins (map_assign (HeapMap (next_ref s)) k v s') = m_plugins s) \<and>
           (\<forall>k. m_plugins (map_delete (HeapMap (next_ref s)) k s') = m_plugins s) \<and>
           (\<forall>b. b \<noteq> next_ref s \<longrightarrow> heap s' b = heap s b)"
proof -
  let ?a = "next_ref s"
  let ?s0 = "emit ERLock (s\<lparr>mu_readers := Suc (mu_readers s)\<rparr>)"
  let ?s1 = "?s0\<lparr>heap := (heap ?s0)(?a \<mapsto> []), next_ref := Suc ?a\<rparr>"
  let ?c = "fold (\<lambda>(k, v). AList.update k v) (range_map (m_plugins s)) []"
  have rl: "RLock s = Some ?s0" using assms by (simp add: RLock_def)
  have mk: "make_map ?s0 = (HeapMap ?a, ?s1)" by (simp add: make_map_def emit_def)
  have h1: "heap ?s1 ?a = Some []" by simp
  have cp: "copy_entries (range_map (m_plugins ?s1)) (HeapMap ?a) ?s1 = ?s1\<lparr>heap := (heap ?s1)(?a \<mapsto> ?c)\<rparr>"
    using copy_entries_heap [OF h1, of "range_map (m_plugins ?s1)"] by (simp add: emit_def)
  have call: "GetAllPlugins s = Some (HeapMap ?a, RUnlock (?s1\<lparr>heap := (heap ?s1)(?a \<mapsto> ?c)\<rparr>))"
    unfolding GetAllPlugins_def rl by (simp only: option.case mk prod.case cp)
  show ?thesis
    unfolding call
    by (simp add: RUnlock_def emit_def range_map_copy split: option.splits)
qed

theorem GetAllPlugins_fresh_copy_witness:
  "\<not> mu_writer s_demo \<and>
   (\<exists>s'. GetAllPlugins s_demo = Some (HeapMap 0, s') \<and>
      map_of (map_read (HeapMap 0) s') = map_of (m_plugins s_demo) \<and>
      (\<forall>k. m_plugins (map_delete (HeapMap 0) k s') = m_plugins s_demo))"
proof -
  have h: "\<not> mu_writer s_demo" by (simp add: s_demo_def)
  have n: "next_ref s_demo = 0" by (simp add: s_demo_def)
  show ?thesis
    using GetAllPlugins_fresh_copy [OF h] h unfolding n by blast
qed


subsection \<open>Failed installs\<close>

text \<open>
  C1. The claim fails on the code. The archive of this run holds \<open>main.go\<close> and then
  an entry that is refused. \<^verbatim>\<open>ExtractZipPlugin\<close> has written \<open>main.go\<close> when it fails,
  \<^verbatim>\<open>InstallFromZip\<close> returns "failed to extract plugin" without a clean-up call, and
  \<^verbatim>\<open>InstallPluginFromZip\<close> returns "installation failed": the registry is as before,
  but the source directory \<open>plugins/fresh\<close> with the extracted \<open>main.go\<close> is left on
  disk.
\<close>

theorem InstallPluginFromZip_extract_failure_leaves_files:
  "run_outcome (InstallPluginFromZip env_traversal ''temp/up.zip'' ''fresh'' s_fresh)
   = Some (Some (InstallationFailed (ExtractFailed
              (ExtractFileFailed ''../../evil.go'' (InvalidFilePath ''../../evil.go'')))),
           Dir 0
             [(''plugins'',
               Dir 0
                 [(''demo'',
                   Dir 1
                     [(''main.go'', File 100 2),
                      (''plugin.json'', File 170 3),
                      (''go.mod'', File 104 4)]),
                  (''.build'', Dir 5 [(''demo.so'', File 1000 6)]),
                  (''fresh'', Dir 10 [(''main.go'', File 100 13)])]),
              (''temp'', Dir 7 [(''up.zip'', File 2048 8), (''empty.zip'', File 0 9)])],
           [])"
  by (simp add: env_traversal_def prim_defs comp_defs world_defs str_defs Let_def
           cong: prod.case_cong_weak let_weak_cong)

subsection \<open>How long the lock is held\<close>

text \<open>
  A method built as \<^verbatim>\<open>m.mu.Lock(); defer m.mu.Unlock(); body\<close> holds the lock from its
  first event to its last when the body has no lock operation of its own.
\<close>

lemma Lock_free: "\<not> mu_writer s \<Longrightarrow> mu_readers s = 0 \<Longrightarrow> Lock s = Some (emit ELock (s\<lparr>mu_writer := True\<rparr>))"
  by (simp add: Lock_def)

lemma locked_call_events:
  assumes "run_step P (emit ELock (s\<lparr>mu_writer := True\<rparr>)) s1"
  shows "\<exists>evs. trace (Unlock s1) = trace s @ ELock # evs @ [EUnlock] \<and> (\<forall>e \<in> set evs. P e) \<and>
               \<not> mu_writer (Unlock s1) \<and> mu_readers (Unlock s1) = mu_readers s"
  using assms by (auto simp: run_step_def Unlock_def emit_def)

lemma held_throughout_locked: "\<forall>e \<in> set evs. \<not> is_lock_event e \<Longrightarrow> held_throughout (ELock # evs @ [EUnlock])"
  by (simp add: held_throughout_def)

lemma locked_held:
  assumes free: "Lock s = Some s0"
    and body: "run_step P s0 (snd (body s0))"
    and P: "\<And>e. P e \<Longrightarrow> \<not> is_lock_event e"
  shows "\<exists>s'. final_state (locked body s) = Some s' \<and> held_throughout (new_events s s')"
proof -
  have s0: "s0 = emit ELock (s\<lparr>mu_writer := True\<rparr>)" by (rule Lock_Some [OF free])
  from locked_call_events [OF body [unfolded s0]]
  obtain evs where evs: "trace (Unlock (snd (body s0))) = trace s @ ELock # evs @ [EUnlock]"
    "\<forall>e \<in> set evs. P e"
    unfolding s0 by blast
  from evs(2) P have "\<forall>e \<in> set evs. \<not> is_lock_event e" by blast
  then have "held_throughout (new_events s (Unlock (snd (body s0))))"
    unfolding new_events_def evs(1) by (simp add: held_throughout_locked)
  moreover have "final_state (locked body s) = Some (Unlock (snd (body s0)))"
    by (simp add: locked_def free final_state_finish)
  ultimately show ?thesis by blast
qed

lemma LoadPlugin_body_run [run]: "run_step is_load_event s (snd (LoadPlugin_body env n s))"
  unfolding LoadPlugin_body_def
  by (simp add: split_beta run low_is_load split: option.splits sum.splits)

lemma init_loaded_run [run]:
  "run_step is_load_event s s1 \<Longrightarrow> run_step is_load_event s (init_loaded found s1)"
proof (induction found arbitrary: s1)
  case Nil
  then show ?case by simp
next
  case (Cons x found)
  obtain name inst where x: "x = (name, inst)" by (cases x)
  have step: "run_step is_load_event s (snd (plugin_Initialize inst s1))"
    by (rule plugin_Initialize_run [OF _ Cons.prems]) simp
  show ?case
    unfolding x
    by (simp add: split_beta Cons.IH [OF Cons.prems] Cons.IH [OF step] Cons.IH [OF run_registry [OF step]]
                  Cons.IH [OF run_registry [OF Cons.prems]] split: option.splits)
qed

lemma LoadPlugins_body_run [run]: "run_step is_load_event s (snd (LoadPlugins_body env d s))"
  unfolding LoadPlugins_body_def
  by (simp add: split_beta run low_is_load)

lemma UnloadPlugin_body_run [run]:
  "run_step (\<lambda>e. \<not> is_lock_event e) s (snd (UnloadPlugin_body n s))"
  unfolding UnloadPlugin_body_def
  by (simp add: split_beta run split: option.splits)

lemma InstallPluginFromZip_body_run [run]:
  "run_step is_load_event s (snd (InstallPluginFromZip_body env z n s))"
  by (rule run_step_trans [OF _ Install_body_after_validation])
     (rule ValidateZipPlugin_run [OF _ run_step_refl], simp add: low_is_load)

text \<open>
  \<^verbatim>\<open>InstallPluginFromZip\<close>, \<^verbatim>\<open>LoadPlugin\<close>, \<^verbatim>\<open>LoadPlugins\<close> and \<^verbatim>\<open>UnloadPlugin\<close> hold the lock for
  the whole call, the calls into the Extractor, the Compiler and the Loader included.
\<close>

lemma InstallPluginFromZip_held:
  "Lock s = Some s0 \<Longrightarrow>
   \<exists>s'. final_state (InstallPluginFromZip env z n s) = Some s' \<and> held_throughout (new_events s s')"
  unfolding InstallPluginFromZip_def
  by (erule locked_held [OF _ InstallPluginFromZip_body_run]) (rule load_not_lock)

lemma LoadPlugin_held:
  "Lock s = Some s0 \<Longrightarrow>
   \<exists>s'. final_state (LoadPlugin env n s) = Some s' \<and> held_throughout (new_events s s')"
  unfolding LoadPlugin_def
  by (erule locked_held [OF _ LoadPlugin_body_run]) (rule load_not_lock)

lemma LoadPlugins_held:
  "Lock s = Some s0 \<Longrightarrow>
   \<exists>s'. final_state (LoadPlugins env d s) = Some s' \<and> held_throughout (new_events s s')"
  unfolding LoadPlugins_def
  by (erule locked_held [OF _ LoadPlugins_body_run]) (rule load_not_lock)

lemma UnloadPlugin_held:
  "Lock s = Some s0 \<Longrightarrow>
   \<exists>s'. final_state (UnloadPlugin n s) = Some s' \<and> held_throughout (new_events s s')"
  unfolding UnloadPlugin_def
  by (erule locked_held [OF _ UnloadPlugin_body_run])

text \<open>
  C9. The claim fails on the code. \<^verbatim>\<open>ReloadPlugin\<close> on the loaded plugin \<open>demo\<close> takes
  the read lock and releases it, calls \<^verbatim>\<open>UnloadPlugin\<close> (which locks and unlocks), and
  then runs \<^verbatim>\<open>RecompilePlugin\<close> with no lock held: the removal of the artifact, the
  build directory, \<^verbatim>\<open>go mod tidy\<close> and \<^verbatim>\<open>go build\<close> all come after the \<^verbatim>\<open>Unlock\<close>.
  \<^verbatim>\<open>UninstallPlugin\<close> reads the registry and removes the plugin's files with no lock held
  either.
\<close>

theorem ReloadPlugin_recompiles_unlocked:
  "run_events s_demo (ReloadPlugin env_linux ''demo'' s_demo) =
     Some [ERLock, ERUnlock, ELock, EShutdown 0, EUnlock,
           ERemove ''plugins/.build/demo.so'', EMkdirAll ''plugins/.build'',
           ERemove ''plugins/.build/demo.so'', EStat ''plugins/demo/go.mod'',
           EGoModTidy ''plugins/demo'', EGoBuild ''plugins/demo'' ''plugins/.build/demo.so'',
           EStat ''plugins/.build/demo.so''] \<and>
   map_option held_throughout (run_events s_demo (ReloadPlugin env_linux ''demo'' s_demo)) = Some False \<and>
   run_events s_demo (UninstallPlugin env_linux ''demo'' s_demo) =
     Some [ELock, EShutdown 0, EUnlock, ERemoveAll ''plugins/demo'', ERemove ''plugins/.build/demo.so''] \<and>
   map_option held_throughout (run_events s_demo (UninstallPlugin env_linux ''demo'' s_demo)) = Some False"
  by (simp add: run_events_def new_events_def held_throughout_def prim_defs comp_defs world_defs str_defs Let_def
           cong: prod.case_cong_weak let_weak_cong)

end
